theory Spec2Isabelle
  imports Complex_Main "HOL-Library.Sublist"
begin

section \<open>Python strings\<close>

text \<open>
  Titles are Python \<open>str\<close> values. They are modelled as HOL strings whose characters
  are the code points below 256; on that range the three character classes below are
  exactly Python's \<open>str.isspace\<close> (which is also what \<open>\s\<close> matches in a \<open>str\<close>
  pattern and what \<open>str.strip()\<close> removes), \<open>str.lower\<close> and the class
  \<open>[a-z0-9]\<close>.
\<close>

definition isspace :: "char \<Rightarrow> bool" where
  "isspace c = (let n = (of_char c :: nat) in
     (9 \<le> n \<and> n \<le> 13) \<or> (28 \<le> n \<and> n \<le> 32) \<or> n = 133 \<or> n = 160)"

definition lower_char :: "char \<Rightarrow> char" where
  "lower_char c = (let n = (of_char c :: nat) in
     if (65 \<le> n \<and> n \<le> 90) \<or> (192 \<le> n \<and> n \<le> 222 \<and> n \<noteq> 215)
     then char_of (n + 32) else c)"

definition is_a_z_0_9 :: "char \<Rightarrow> bool" where
  "is_a_z_0_9 c = (let n = (of_char c :: nat) in
     (97 \<le> n \<and> n \<le> 122) \<or> (48 \<le> n \<and> n \<le> 57))"

text \<open>\<open>t.lower()\<close>\<close>

definition py_lower :: "string \<Rightarrow> string" where
  "py_lower t = map lower_char t"

text \<open>\<open>t.strip()\<close>: leading and trailing whitespace removed.\<close>

definition py_strip :: "string \<Rightarrow> string" where
  "py_strip t = rev (dropWhile isspace (rev (dropWhile isspace t)))"

text \<open>\<open>re.sub(r'[^a-z0-9\s]', '', t)\<close>: every character outside the class is deleted.\<close>

definition sub_non_alnum :: "string \<Rightarrow> string" where
  "sub_non_alnum t = filter (\<lambda>c. is_a_z_0_9 c \<or> isspace c) t"

text \<open>\<open>re.sub(r'\s+', ' ', t)\<close>: every maximal run of whitespace becomes one blank.\<close>

function sub_spaces :: "string \<Rightarrow> string" where
  "sub_spaces [] = []"
| "sub_spaces (c # cs) =
     (if isspace c then CHR '' '' # sub_spaces (dropWhile isspace cs)
      else c # sub_spaces cs)"
  by pat_completeness auto
termination
  by (relation "measure length") (auto simp: le_imp_less_Suc length_dropWhile_le)

text \<open>
  \<open>t.replace(old, "")\<close>: the occurrences of \<open>old\<close> are deleted from left to right,
  without overlap; an empty \<open>old\<close> leaves \<open>t\<close> as it is.
\<close>

function str_remove :: "string \<Rightarrow> string \<Rightarrow> string" where
  "str_remove old [] = []"
| "str_remove old (c # cs) =
     (if old \<noteq> [] \<and> prefix old (c # cs)
      then str_remove old (drop (length old) (c # cs))
      else c # str_remove old cs)"
  by pat_completeness auto
termination
  by (relation "measure (\<lambda>(old, t). length t)") auto

section \<open>Title normalization (\<open>normalize_title\<close> of bots.py and scanner.py)\<close>

definition noise_words :: "string list" where
  "noise_words = [''will '', ''what '', ''who '', ''which '', ''when '', ''how '',
     ''the '', ''by end of '', ''before '', ''in 2026'', ''in 2025'', ''in 2027'']"

definition normalize_title :: "string \<Rightarrow> string" where
  "normalize_title t =
     py_strip (foldl (\<lambda>t noise. str_remove noise t)
       (sub_spaces (sub_non_alnum (py_strip (py_lower t)))) noise_words)"

section \<open>Numbers\<close>

text \<open>
  Python floats are modelled as real numbers: prices, probabilities and money amounts
  are exact reals here, so the arithmetic below is the arithmetic the source writes,
  without the rounding error of binary floating point. \<open>round(x, n)\<close> rounds to
  \<open>n\<close> decimals, a tie going to the even neighbour.
\<close>

definition round_half_even :: "real \<Rightarrow> int" where
  "round_half_even x =
     (let f = \<lfloor>x\<rfloor>; d = x - of_int f in
      if d < 1 / 2 then f else if 1 / 2 < d then f + 1
      else if even f then f else f + 1)"

definition py_round :: "real \<Rightarrow> nat \<Rightarrow> real" where
  "py_round x n = of_int (round_half_even (x * 10 ^ n)) / 10 ^ n"

section \<open>Kalshi price extraction (scanner.py) and the Kalshi fetcher of bots.py\<close>

text \<open>
  A market as the Kalshi API returns it is a JSON object: a dict from keys to JSON
  values. Arrays and nested objects do not occur in the fields read here.
\<close>

datatype json = JNull | JBool bool | JNum real | JStr string

type_synonym json_dict = "string \<rightharpoonup> json"

definition is_digit :: "char \<Rightarrow> bool" where
  "is_digit c = (let n = (of_char c :: nat) in 48 \<le> n \<and> n \<le> 57)"

definition digits_value :: "string \<Rightarrow> nat" where
  "digits_value ds = foldl (\<lambda>a c. 10 * a + (of_char c - 48)) 0 ds"

text \<open>
  \<open>float(s)\<close> on a string, for the plain decimal literals (optional sign, digits,
  optional point, surrounding whitespace); \<open>None\<close> is the ValueError. The exponent,
  \<open>inf\<close>/\<open>nan\<close> and underscore forms that \<open>float\<close> also reads are not modelled.
\<close>

definition float_of_str :: "string \<Rightarrow> real option" where
  "float_of_str s =
     (let t = py_strip s;
          neg = (t \<noteq> [] \<and> hd t = CHR ''-'');
          u = (if t \<noteq> [] \<and> (hd t = CHR ''-'' \<or> hd t = CHR ''+'') then tl t else t);
          ip = takeWhile (\<lambda>c. c \<noteq> CHR ''.'') u;
          fp = drop 1 (dropWhile (\<lambda>c. c \<noteq> CHR ''.'') u)
      in if (ip = [] \<and> fp = []) \<or> \<not> list_all is_digit (ip @ fp) then None
         else let v = real (digits_value ip) + real (digits_value fp) / 10 ^ length fp
              in Some (if neg then - v else v))"

text \<open>
  \<open>safe_float(val, default)\<close>: \<open>float(val)\<close>, and the default on TypeError or
  ValueError. The argument is the result of \<open>m.get(key)\<close>, so an absent key is
  \<open>None\<close> like an explicit null. \<open>py_float\<close> is \<open>float\<close> with its exception as
  \<open>None\<close>; the source calls \<open>safe_float\<close> with the default \<open>None\<close> and with a
  numeric default, which are \<open>safe_float_none\<close> and \<open>safe_float\<close> here.
\<close>

definition py_float :: "json option \<Rightarrow> real option" where
  "py_float val =
     (case val of
        None \<Rightarrow> None
      | Some JNull \<Rightarrow> None
      | Some (JBool b) \<Rightarrow> Some (if b then 1 else 0)
      | Some (JNum x) \<Rightarrow> Some x
      | Some (JStr s) \<Rightarrow> float_of_str s)"

definition safe_float_none :: "json option \<Rightarrow> real option" where
  "safe_float_none val = (case py_float val of Some x \<Rightarrow> Some x | None \<Rightarrow> None)"

definition safe_float :: "json option \<Rightarrow> real \<Rightarrow> real" where
  "safe_float val dflt = (case py_float val of Some x \<Rightarrow> x | None \<Rightarrow> dflt)"

text \<open>\<open>_normalize_to_cents\<close> of scanner.py.\<close>

definition normalize_to_cents :: "json option \<Rightarrow> real option" where
  "normalize_to_cents val =
     (if val = None \<or> val = Some JNull then None
      else case safe_float_none val of
             None \<Rightarrow> None
           | Some v \<Rightarrow> Some (if 0 < v \<and> v \<le> 1 then v * 100 else v))"

text \<open>The loop over the two dollar-denominated fields at the end of the extractor.\<close>

fun dollar_fields :: "json_dict \<Rightarrow> string list \<Rightarrow> real option" where
  "dollar_fields market [] = None"
| "dollar_fields market (field # rest) =
     (case safe_float_none (market field) of
        Some raw \<Rightarrow>
          if raw > 0 \<and> 0 < raw * 100 \<and> raw * 100 \<le> 100 then Some (raw * 100)
          else dollar_fields market rest
      | None \<Rightarrow> dollar_fields market rest)"

text \<open>
  \<open>extract_kalshi_yes_pct\<close> of scanner.py; the result \<open>None\<close> is Python's
  \<open>None\<close>. \<open>positive v\<close> is the test \<open>v is not None and v > 0\<close>, keeping the value.
  Steps 5 and 6 of the source, reached by every path that has not returned, are bound
  to \<open>fallback\<close>.
\<close>

definition positive :: "real option \<Rightarrow> real option" where
  "positive v = (case v of None \<Rightarrow> None | Some x \<Rightarrow> if x > 0 then Some x else None)"

definition extract_kalshi_yes_pct :: "json_dict \<Rightarrow> real option" where
  "extract_kalshi_yes_pct market =
     (let fallback =
            (case positive (normalize_to_cents (market ''last_price'')) of
               Some last_price \<Rightarrow>
                 if last_price \<le> 100 then Some last_price
                 else dollar_fields market [''yes_price_dollar'', ''last_price_dollar'']
             | None \<Rightarrow> dollar_fields market [''yes_price_dollar'', ''last_price_dollar''])
      in case positive (normalize_to_cents (market ''yes_price'')) of
           Some yes_price \<Rightarrow> if yes_price > 100 then None else Some yes_price
         | None \<Rightarrow>
             (case (positive (normalize_to_cents (market ''yes_bid'')),
                    positive (normalize_to_cents (market ''yes_ask''))) of
                (Some yes_bid, Some yes_ask) \<Rightarrow>
                  (let mid = (yes_bid + yes_ask) / 2 in
                   if 0 < mid \<and> mid \<le> 100 then Some mid else fallback)
              | (None, Some yes_ask) \<Rightarrow>
                  if 0 < yes_ask \<and> yes_ask \<le> 100 then Some yes_ask else fallback
              | (Some yes_bid, None) \<Rightarrow>
                  if 0 < yes_bid \<and> yes_bid \<le> 100 then Some yes_bid else fallback
              | (None, None) \<Rightarrow> fallback))"

text \<open>
  A response of \<open>fetch_json\<close>: the dict \<open>{"error": ...}\<close> of a failed request, or a
  page with its \<open>markets\<close> list and its \<open>cursor\<close> (the empty string when absent).
\<close>

datatype response = Failed string | Page "json_dict list" string

text \<open>
  The rows the two fetchers emit. Of the dict each fetcher builds, the row keeps the
  ticker, the title and the numeric fields; the other entries (platform name, event
  ticker, category, end date, url) are copies of input fields and constants that
  decide neither whether a market is kept nor its price. The url lower-cases the
  ticker, which is taken to be a string when it is present.
\<close>

record scanner_row =
  sr_ticker :: "json"
  sr_market_title :: "json"
  sr_yes_price :: real
  sr_volume :: real
  sr_open_interest :: real

record bots_row =
  br_ticker :: "json"
  br_title :: "json"
  br_yes_pct :: real
  br_volume :: real
  br_liquidity :: real

text \<open>\<open>m.get(key, "")\<close>\<close>

definition get_or_empty :: "json_dict \<Rightarrow> string \<Rightarrow> json" where
  "get_or_empty m key = (case m key of None \<Rightarrow> JStr [] | Some v \<Rightarrow> v)"

text \<open>\<open>safe_float(m.get(key, 0), 0)\<close>\<close>

definition get_float0 :: "json_dict \<Rightarrow> string \<Rightarrow> real" where
  "get_float0 m key = safe_float (case m key of None \<Rightarrow> Some (JNum 0) | v \<Rightarrow> v) 0"

text \<open>The body of the loop over one page's markets in \<open>fetch_kalshi_markets\<close> of scanner.py.\<close>

definition scanner_kalshi_row :: "json_dict \<Rightarrow> scanner_row option" where
  "scanner_kalshi_row m =
     (case extract_kalshi_yes_pct m of
        None \<Rightarrow> None
      | Some yes_pct \<Rightarrow>
          if yes_pct \<le> 0 then None
          else Some \<lparr> sr_ticker = get_or_empty m ''ticker'',
                      sr_market_title = get_or_empty m ''title'',
                      sr_yes_price = py_round yes_pct 1,
                      sr_volume = get_float0 m ''volume'',
                      sr_open_interest = get_float0 m ''open_interest'' \<rparr>)"

text \<open>
  The body of the same loop in \<open>fetch_kalshi_markets\<close> of bots.py, which reads the
  price itself: \<open>yes_price\<close> when it converts to a float, otherwise the midpoint when
  bid and ask are both non-zero, otherwise 0.
\<close>

definition bots_kalshi_row :: "json_dict \<Rightarrow> bots_row option" where
  "bots_kalshi_row m =
     (let yes_pct =
            (case safe_float_none (m ''yes_price'') of
               Some yes_price \<Rightarrow> yes_price
             | None \<Rightarrow>
                 (let yes_bid = safe_float (m ''yes_bid'') 0;
                      yes_ask = safe_float (m ''yes_ask'') 0
                  in if yes_bid \<noteq> 0 \<and> yes_ask \<noteq> 0 then (yes_bid + yes_ask) / 2 else 0))
      in if yes_pct \<le> 0 then None
         else Some \<lparr> br_ticker = get_or_empty m ''ticker'',
                     br_title = get_or_empty m ''title'',
                     br_yes_pct = py_round yes_pct 1,
                     br_volume = get_float0 m ''volume'',
                     br_liquidity = get_float0 m ''open_interest'' \<rparr>)"

text \<open>
  The paging loop \<open>for _ in range(3)\<close> shared by both fetchers: at most three pages,
  stopping at a failed request or an empty cursor. \<open>fetch_json\<close> is the HTTP call,
  given the url.
\<close>

definition kalshi_url :: "string \<Rightarrow> string" where
  "kalshi_url cursor =
     ''https://api.elections.kalshi.com/trade-api/v2/markets?status=open&limit=100''
       @ (if cursor \<noteq> [] then ''&cursor='' @ cursor else [])"

fun kalshi_pages :: "nat \<Rightarrow> (json_dict \<Rightarrow> 'row option) \<Rightarrow> (string \<Rightarrow> response) \<Rightarrow> string \<Rightarrow> 'row list \<Rightarrow> 'row list" where
  "kalshi_pages 0 row fetch_json cursor markets = markets"
| "kalshi_pages (Suc n) row fetch_json cursor markets =
     (case fetch_json (kalshi_url cursor) of
        Failed e \<Rightarrow> markets
      | Page ms cursor' \<Rightarrow>
          (let markets' = markets @ List.map_filter row ms in
           if cursor' = [] then markets'
           else kalshi_pages n row fetch_json cursor' markets'))"

definition scanner_fetch_kalshi_markets :: "(string \<Rightarrow> response) \<Rightarrow> scanner_row list" where
  "scanner_fetch_kalshi_markets fetch_json = kalshi_pages 3 scanner_kalshi_row fetch_json [] []"

definition bots_fetch_kalshi_markets :: "(string \<Rightarrow> response) \<Rightarrow> bots_row list" where
  "bots_fetch_kalshi_markets fetch_json = kalshi_pages 3 bots_kalshi_row fetch_json [] []"

section \<open>Trading constants, Kelly sizing and slippage (bots.py)\<close>

datatype direction = BUY_YES | BUY_NO | ARB

definition MAX_BET_PER_TRADE :: real where
  "MAX_BET_PER_TRADE = 800"

definition SLIPPAGE_PCT :: real where
  "SLIPPAGE_PCT = 2.0"

definition FEES_PCT :: real where
  "FEES_PCT = 1.0"

definition INITIAL_BANKROLL :: real where
  "INITIAL_BANKROLL = 10000.0"

text \<open>
  \<open>kelly_size\<close>: the pair of the stake and the direction, \<open>None\<close> for no trade.
  Past the guard both prices lie strictly between 0.01 and 0.99, so no division is by
  zero.
\<close>

definition kelly_size :: "real \<Rightarrow> real \<Rightarrow> real \<Rightarrow> real \<Rightarrow> real \<times> direction option" where
  "kelly_size estimated_prob market_price bankroll kelly_fraction =
     (if estimated_prob \<le> 0.01 \<or> estimated_prob \<ge> 0.99
         \<or> market_price \<le> 0.01 \<or> market_price \<ge> 0.99
      then (0, None)
      else
        let b_yes = (1 / market_price) - 1;
            f_yes = (b_yes * estimated_prob - (1 - estimated_prob)) / b_yes;
            no_price = 1 - market_price;
            no_prob = 1 - estimated_prob;
            b_no = (1 / no_price) - 1;
            f_no = (b_no * no_prob - (1 - no_prob)) / b_no
        in if f_yes > 0 \<and> f_yes \<ge> f_no then
             (let bet = bankroll * f_yes * kelly_fraction;
                  bet = min (min bet (bankroll * 0.15)) MAX_BET_PER_TRADE;
                  bet = bet * (1 - FEES_PCT / 100)
              in (py_round bet 2, Some BUY_YES))
           else if f_no > 0 then
             (let bet = bankroll * f_no * kelly_fraction;
                  bet = min (min bet (bankroll * 0.15)) MAX_BET_PER_TRADE;
                  bet = bet * (1 - FEES_PCT / 100)
              in (py_round bet 2, Some BUY_NO))
           else (0, None))"

definition apply_slippage :: "real \<Rightarrow> direction \<Rightarrow> real" where
  "apply_slippage market_price dir =
     (let slip = SLIPPAGE_PCT / 100 in
      case dir of
        BUY_YES \<Rightarrow> min (market_price * (1 + slip)) 99
      | BUY_NO \<Rightarrow> max (market_price * (1 - slip)) 1
      | ARB \<Rightarrow> market_price)"

section \<open>The data of the engine (bots.py)\<close>

text \<open>
  The dicts of the engine as records, one field per key the engine reads or writes;
  fields are prefixed by the record they belong to, since a key such as \<open>market\<close>
  occurs in several dicts.
\<close>

text \<open>A market snapshot, as the fetchers of bots.py build it.\<close>

record market =
  m_platform :: string
  m_title :: string
  m_yes_pct :: real
  m_volume :: real
  m_volume_24hr :: real
  m_liquidity :: real
  m_end_date :: string
  m_category :: string
  m_url :: string

record arb_detail =
  buy_platform :: string
  buy_price :: real
  sell_platform :: string
  sell_price :: real
  spread :: real

text \<open>A proposed trade, as a strategy function returns it.\<close>

record trade =
  t_market :: string
  t_platform :: string
  t_url :: string
  t_category :: string
  t_direction :: direction
  t_market_price :: real
  t_estimated_prob :: real
  t_edge_pp :: real
  t_bet_amount :: real
  t_kelly_fraction :: real
  t_source :: string
  t_rationale :: string
  t_confidence :: string
  t_arb_detail :: "arb_detail option"

text \<open>An executed trade (\<open>trade_record\<close>), appended to the trade log.\<close>

record trade_record =
  r_id :: string
  r_bot_id :: string
  r_bot_name :: string
  r_timestamp :: string
  r_market :: string
  r_platform :: string
  r_url :: string
  r_category :: string
  r_direction :: direction
  r_entry_price :: real
  r_estimated_prob :: real
  r_edge_pp :: real
  r_bet_amount :: real
  r_kelly_fraction :: real
  r_source :: string
  r_rationale :: string
  r_confidence :: string
  r_status :: string
  r_pnl :: real
  r_arb_detail :: "arb_detail option"

text \<open>An open position; the engine stores no \<open>arb_detail\<close> in it.\<close>

record position =
  pos_trade_id :: string
  pos_market :: string
  pos_direction :: direction
  pos_entry_price :: real
  pos_current_price :: real
  pos_bet_amount :: real
  pos_timestamp :: string
  pos_platform :: string
  pos_url :: string

record bot_state =
  bankroll :: real
  total_trades :: int
  winning_trades :: int
  total_pnl :: real
  peak_bankroll :: real
  positions :: "position list"
  equity_curve :: "(string \<times> real) list"

text \<open>
  A bot definition: its id, name and strategy tag and its \<open>params\<close> dict. Of that
  dict, \<open>max_positions\<close> is the entry the engine reads, a whole number when present;
  \<open>params\<close> holds the other entries, which only the strategies read. The display
  entries (emoji, colours, descriptions) are copied to the result unchanged and are
  left out.
\<close>

record bot =
  bot_id :: string
  bot_name :: string
  strategy :: string
  max_positions :: "int option"
  params :: "string \<rightharpoonup> real"

text \<open>
  What one run reads from its surroundings: the two renderings of the time \<open>now\<close>
  (\<open>now.isoformat()\<close> and \<open>now.strftime("%Y-%m-%dT%H:%M:%SZ")\<close>) and the first twelve
  hex digits of the MD5 digest of a string.
\<close>

record env =
  now_isoformat :: string
  now_stamp :: string
  md5_hex12 :: "string \<Rightarrow> string"

text \<open>
  A strategy function, called with the bot, all markets, the markets of each venue and
  the bot's state. It returns its list of proposals or raises; what it raises is an
  \<open>Exception\<close>, which is all the engine catches.
\<close>

datatype py_exception = KeyError string | TypeError | ValueError | AttributeError
  | ZeroDivisionError | IndexError

type_synonym strategy_fn =
  "bot \<Rightarrow> market list \<Rightarrow> market list \<Rightarrow> market list \<Rightarrow> bot_state
     \<Rightarrow> py_exception + trade list"

section \<open>The per-bot body of \<open>run_bot_engine\<close>\<close>

text \<open>\<open>bot["params"].get("max_positions", 5)\<close>\<close>

definition max_positions_of :: "bot \<Rightarrow> int" where
  "max_positions_of b = (case max_positions b of None \<Rightarrow> 5 | Some v \<Rightarrow> v)"

text \<open>The set \<open>existing_market_keys\<close>, built once before the admission loop.\<close>

definition existing_market_keys :: "bot_state \<Rightarrow> string set" where
  "existing_market_keys bot_state = set (map (\<lambda>pos. normalize_title (pos_market pos)) (positions bot_state))"

definition make_trade_record :: "env \<Rightarrow> bot \<Rightarrow> trade \<Rightarrow> trade_record" where
  "make_trade_record e b trade =
     (let slipped_entry = apply_slippage (t_market_price trade) (t_direction trade) in
      \<lparr> r_id = md5_hex12 e (bot_id b @ '':'' @ t_market trade @ '':'' @ now_isoformat e),
        r_bot_id = bot_id b, r_bot_name = bot_name b,
        r_timestamp = now_stamp e,
        r_market = t_market trade, r_platform = t_platform trade,
        r_url = t_url trade, r_category = t_category trade,
        r_direction = t_direction trade,
        r_entry_price = py_round slipped_entry 2,
        r_estimated_prob = t_estimated_prob trade,
        r_edge_pp = t_edge_pp trade, r_bet_amount = t_bet_amount trade,
        r_kelly_fraction = t_kelly_fraction trade, r_source = t_source trade,
        r_rationale = t_rationale trade, r_confidence = t_confidence trade,
        r_status = ''OPEN'', r_pnl = 0,
        r_arb_detail = t_arb_detail trade \<rparr>)"

definition make_position :: "trade_record \<Rightarrow> trade \<Rightarrow> position" where
  "make_position trade_record trade =
     \<lparr> pos_trade_id = r_id trade_record, pos_market = t_market trade,
       pos_direction = t_direction trade,
       pos_entry_price = py_round (apply_slippage (t_market_price trade) (t_direction trade)) 2,
       pos_current_price = t_market_price trade, pos_bet_amount = t_bet_amount trade,
       pos_timestamp = r_timestamp trade_record, pos_platform = t_platform trade,
       pos_url = t_url trade \<rparr>"

text \<open>
  The admission loop \<open>for trade in proposed_trades\<close>, on the pair of the bot's state
  and the list \<open>executed_trades\<close>. The first test is the \<open>continue\<close> on a key of
  \<open>existing_market_keys\<close>, the second the \<open>break\<close> at the cap, where
  \<open>current_positions\<close> is the length of the position list as it is at that iteration.
\<close>

fun admit_trades :: "env \<Rightarrow> bot \<Rightarrow> string set \<Rightarrow> trade list
    \<Rightarrow> bot_state \<times> trade_record list \<Rightarrow> bot_state \<times> trade_record list" where
  "admit_trades e b existing [] (bot_state, executed_trades) = (bot_state, executed_trades)"
| "admit_trades e b existing (trade # proposed) (bot_state, executed_trades) =
     (let trade_key = normalize_title (t_market trade) in
      if trade_key \<in> existing
      then admit_trades e b existing proposed (bot_state, executed_trades)
      else
        let current_positions = length (positions bot_state);
            max_pos = max_positions_of b
        in if int (current_positions + length executed_trades) \<ge> max_pos
           then (bot_state, executed_trades)
           else
             let trade_record = make_trade_record e b trade
             in admit_trades e b existing proposed
                  (bot_state\<lparr> bankroll := bankroll bot_state - t_bet_amount trade,
                              total_trades := total_trades bot_state + 1,
                              positions := positions bot_state @ [make_position trade_record trade] \<rparr>,
                   executed_trades @ [trade_record]))"

text \<open>
  Marking one position: the first market whose stripped, lower-cased title equals the
  position's decides, and its price is taken when it is within 15 points of the mark.
\<close>

definition mark_position :: "market list \<Rightarrow> position \<Rightarrow> position" where
  "mark_position all_markets pos =
     (let pos_title_lower = py_lower (py_strip (pos_market pos));
          exact_match = List.find (\<lambda>mkt. py_lower (py_strip (m_title mkt)) = pos_title_lower) all_markets
      in case exact_match of
           None \<Rightarrow> pos
         | Some mkt \<Rightarrow>
             (let new_price = m_yes_pct mkt; old_price = pos_current_price pos in
              if \<bar>new_price - old_price\<bar> \<le> 15 then pos\<lparr> pos_current_price := new_price \<rparr>
              else pos))"

text \<open>
  The contribution of one position to \<open>unrealized_pnl\<close>; 0 where the source skips the
  position. A position carries no \<open>arb_detail\<close>, so an ARB position adds nothing.
\<close>

definition position_pnl :: "position \<Rightarrow> real" where
  "position_pnl pos =
     (let entry = pos_entry_price pos; current = pos_current_price pos; bet = pos_bet_amount pos in
      if entry \<le> 0 \<or> entry \<ge> 100 \<or> current \<le> 0 then 0
      else case pos_direction pos of
        BUY_YES \<Rightarrow>
          (let exit_price = current * (1 - SLIPPAGE_PCT / 100);
               shares = bet / (entry / 100);
               current_value = shares * (exit_price / 100)
           in current_value - bet)
      | BUY_NO \<Rightarrow>
          (let no_entry = 100 - entry; no_current = 100 - current in
           if no_entry \<le> 0 then 0
           else let exit_price = no_current * (1 - SLIPPAGE_PCT / 100);
                    shares = bet / (no_entry / 100);
                    current_value = shares * (exit_price / 100)
                in current_value - bet)
      | ARB \<Rightarrow> 0)"

text \<open>The entry of \<open>bot_results\<close> for one bot, without the display entries of the bot.\<close>

record bot_result =
  res_id :: string
  res_bankroll :: real
  res_total_equity :: real
  res_total_trades :: int
  res_winning_trades :: int
  res_win_rate :: real
  res_total_pnl :: real
  res_unrealized_pnl :: real
  res_return_pct :: real
  res_peak_bankroll :: real
  res_drawdown_pct :: real
  res_open_positions :: nat
  res_positions :: "position list"
  res_equity_curve :: "(string \<times> real) list"
  res_new_trades :: "trade_record list"

text \<open>
  One iteration of \<open>for bot in BOTS\<close> past the strategy lookup: the outcome of the
  strategy call (an exception gives the empty proposal list), admission, marking,
  equity and the result entry. It returns the bot's new state, the executed trades
  and the result entry.
\<close>

definition process_bot :: "env \<Rightarrow> bot \<Rightarrow> market list \<Rightarrow> (py_exception + trade list)
    \<Rightarrow> bot_state \<Rightarrow> bot_state \<times> trade_record list \<times> bot_result" where
  "process_bot e b all_markets outcome bot_state0 =
     (let proposed_trades = (case outcome of Inl exn \<Rightarrow> [] | Inr ts \<Rightarrow> ts);
          existing = existing_market_keys bot_state0;
          (bot_state1, executed_trades) = admit_trades e b existing proposed_trades (bot_state0, []);
          bot_state2 = bot_state1\<lparr> positions := map (mark_position all_markets) (positions bot_state1) \<rparr>;
          unrealized_pnl = sum_list (map position_pnl (positions bot_state2));
          current_equity = bankroll bot_state2
             + sum_list (map pos_bet_amount (positions bot_state2)) + unrealized_pnl;
          peak = max (peak_bankroll bot_state2) current_equity;
          curve = equity_curve bot_state2 @ [(now_stamp e, py_round current_equity 2)];
          curve = (if length curve > 168 then drop (length curve - 168) curve else curve);
          bot_state3 = bot_state2\<lparr> peak_bankroll := peak, equity_curve := curve \<rparr>;
          win_rate = (if total_trades bot_state3 > 0
                      then real_of_int (winning_trades bot_state3) / real_of_int (total_trades bot_state3) * 100
                      else 0)
      in (bot_state3, executed_trades,
          \<lparr> res_id = bot_id b,
            res_bankroll = py_round (bankroll bot_state3) 2,
            res_total_equity = py_round current_equity 2,
            res_total_trades = total_trades bot_state3,
            res_winning_trades = winning_trades bot_state3,
            res_win_rate = py_round win_rate 1,
            res_total_pnl = py_round (total_pnl bot_state3) 2,
            res_unrealized_pnl = py_round unrealized_pnl 2,
            res_return_pct = py_round ((current_equity - INITIAL_BANKROLL) / INITIAL_BANKROLL * 100) 2,
            res_peak_bankroll = py_round peak 2,
            res_drawdown_pct = (if peak > 0 then py_round ((peak - current_equity) / peak * 100) 2 else 0),
            res_open_positions = length (positions bot_state3),
            res_positions = positions bot_state3,
            res_equity_curve = curve,
            res_new_trades = executed_trades \<rparr>))"

section \<open>The loop over the bots and the result of \<open>run_bot_engine\<close>\<close>

text \<open>The state of a bot the store does not know yet.\<close>

definition fresh_state :: "env \<Rightarrow> bot_state" where
  "fresh_state e =
     \<lparr> bankroll = INITIAL_BANKROLL, total_trades = 0, winning_trades = 0, total_pnl = 0,
       peak_bankroll = INITIAL_BANKROLL, positions = [],
       equity_curve = [(now_stamp e, INITIAL_BANKROLL)] \<rparr>"

text \<open>
  The loop \<open>for bot in BOTS\<close> on the triple of the state dict, \<open>new_trades\<close> and
  \<open>bot_results\<close>. A bot whose strategy tag is not in \<open>STRATEGY_MAP\<close> is skipped.
\<close>

fun run_bots :: "env \<Rightarrow> (string \<rightharpoonup> strategy_fn) \<Rightarrow> market list \<Rightarrow> market list \<Rightarrow> bot list
    \<Rightarrow> (string \<rightharpoonup> bot_state) \<times> trade_record list \<times> bot_result list
    \<Rightarrow> (string \<rightharpoonup> bot_state) \<times> trade_record list \<times> bot_result list" where
  "run_bots e strategy_map poly_markets kalshi_markets [] acc = acc"
| "run_bots e strategy_map poly_markets kalshi_markets (b # bs) (state, new_trades, bot_results) =
     (let all_markets = poly_markets @ kalshi_markets;
          bot_state = (case state (bot_id b) of None \<Rightarrow> fresh_state e | Some st \<Rightarrow> st)
      in case strategy_map (strategy b) of
           None \<Rightarrow> run_bots e strategy_map poly_markets kalshi_markets bs (state, new_trades, bot_results)
         | Some strategy_fn \<Rightarrow>
             (let outcome = strategy_fn b all_markets poly_markets kalshi_markets bot_state;
                  (bot_state', executed_trades, result) = process_bot e b all_markets outcome bot_state
              in run_bots e strategy_map poly_markets kalshi_markets bs
                   (state(bot_id b \<mapsto> bot_state'), new_trades @ executed_trades, bot_results @ [result])))"

text \<open>
  The dict \<open>run_bot_engine\<close> returns, with the state and the trade log it saves. The
  entries that only render the time, and \<open>recentTrades\<close>, a sorted excerpt of the
  trade log, are left out.
\<close>

record engine_result =
  totalMarkets :: nat
  polymarketCount :: nat
  kalshiCount :: nat
  bots :: "bot_result list"
  newTradesCount :: nat
  saved_state :: "string \<rightharpoonup> bot_state"
  saved_trades :: "trade_record list"

text \<open>
  \<open>run_bot_engine\<close>, given what it loads: the bots and the strategy table (the module
  globals \<open>BOTS\<close> and \<open>STRATEGY_MAP\<close>), the markets of the two venues, the stored state
  and the stored trade log.
\<close>

definition run_bot_engine :: "env \<Rightarrow> bot list \<Rightarrow> (string \<rightharpoonup> strategy_fn) \<Rightarrow> market list \<Rightarrow> market list
    \<Rightarrow> (string \<rightharpoonup> bot_state) \<Rightarrow> trade_record list \<Rightarrow> engine_result" where
  "run_bot_engine e bot_list strategy_map poly_markets kalshi_markets state all_trades =
     (let (state', new_trades, bot_results) =
            run_bots e strategy_map poly_markets kalshi_markets bot_list (state, [], []);
          all_trades = all_trades @ new_trades;
          all_trades = (if length all_trades > 500 then drop (length all_trades - 500) all_trades
                        else all_trades)
      in \<lparr> totalMarkets = length (poly_markets @ kalshi_markets),
           polymarketCount = length poly_markets,
           kalshiCount = length kalshi_markets,
           bots = bot_results,
           newTradesCount = length new_trades,
           saved_state = state',
           saved_trades = all_trades \<rparr>)"

text \<open>
  The keys of the dicts the engine returns: of an entry of \<open>bot_results\<close>, built from
  the keys of the bot definition, and of the result of \<open>run_bot_engine\<close>.
\<close>

definition bot_result_keys :: "string list \<Rightarrow> string list" where
  "bot_result_keys bot_keys =
     filter (\<lambda>k. k \<noteq> ''params'') bot_keys @
     [''bankroll'', ''total_equity'', ''total_trades'', ''winning_trades'', ''win_rate'',
      ''total_pnl'', ''unrealized_pnl'', ''return_pct'', ''peak_bankroll'', ''drawdown_pct'',
      ''open_positions'', ''positions'', ''equity_curve'', ''new_trades'', ''strategy_params'']"

definition engine_result_keys :: "string list" where
  "engine_result_keys =
     [''timestamp'', ''lastUpdated'', ''lastUpdatedHuman'', ''totalMarkets'',
      ''polymarketCount'', ''kalshiCount'', ''bots'', ''recentTrades'', ''newTradesCount'']"

section \<open>The bots of bots.py and the fixtures of the tests\<close>

definition tiago :: bot where
  "tiago = \<lparr> bot_id = ''tiago'', bot_name = ''Tiago the Armadillo'', strategy = ''contrarian_value'',
     max_positions = Some 5,
     params = map_of [(''min_edge'', 8), (''kelly_fraction'', 0.25), (''min_volume'', 50000),
                      (''min_days_to_expiry'', 7)] \<rparr>"

definition mako :: bot where
  "mako = \<lparr> bot_id = ''mako'', bot_name = ''Mako the Shark'', strategy = ''cross_platform_arb'',
     max_positions = Some 8,
     params = map_of [(''min_spread'', 5), (''kelly_fraction'', 0.5), (''min_volume'', 20000)] \<rparr>"

definition freya :: bot where
  "freya = \<lparr> bot_id = ''freya'', bot_name = ''Freya the Fox'', strategy = ''momentum_narrative'',
     max_positions = Some 6,
     params = map_of [(''volume_surge_ratio'', 2.0), (''kelly_fraction'', 0.33),
                      (''min_volume_24h'', 30000), (''min_edge'', 3)] \<rparr>"

definition ollie :: bot where
  "ollie = \<lparr> bot_id = ''ollie'', bot_name = ''Ollie the Owl'', strategy = ''statistical_value'',
     max_positions = Some 4,
     params = map_of [(''min_edge'', 10), (''kelly_fraction'', 0.20), (''min_volume'', 30000),
                      (''min_days_to_expiry'', 14)] \<rparr>"

definition pepper :: bot where
  "pepper = \<lparr> bot_id = ''pepper'', bot_name = ''Pepper the Honeybadger'', strategy = ''high_conviction'',
     max_positions = Some 3,
     params = map_of [(''min_edge'', 15), (''kelly_fraction'', 1.0), (''min_volume'', 100000)] \<rparr>"

definition ming :: bot where
  "ming = \<lparr> bot_id = ''ming'', bot_name = ''Ming the Pangolin'', strategy = ''tail_risk'',
     max_positions = Some 6,
     params = map_of [(''low_threshold'', 15), (''high_threshold'', 85), (''min_mispricing'', 5),
                      (''kelly_fraction'', 0.10), (''min_volume'', 25000)] \<rparr>"

definition BOTS :: "bot list" where
  "BOTS = [tiago, mako, freya, ollie, pepper, ming]"

text \<open>\<open>_base_bot\<close> and \<open>_trade\<close> of tests/test_issue2_cycles.py, and the keys of \<open>_base_bot\<close>.\<close>

definition base_bot :: "string \<Rightarrow> int \<Rightarrow> bot" where
  "base_bot strat max_pos =
     \<lparr> bot_id = ''testbot'', bot_name = ''Test Bot'', strategy = strat,
       max_positions = Some max_pos,
       params = map_of [(''kelly_fraction'', 0.25)] \<rparr>"

definition base_bot_keys :: "string list" where
  "base_bot_keys = [''id'', ''name'', ''strategy'', ''strategy_name'', ''title'', ''personality'',
     ''emoji'', ''color'', ''accent'', ''params'']"

definition test_trade :: "string \<Rightarrow> trade" where
  "test_trade mkt =
     \<lparr> t_market = mkt, t_platform = ''Polymarket'', t_url = ''https://example.com'',
       t_category = ''Other'', t_direction = BUY_YES, t_market_price = 40.0,
       t_estimated_prob = 55.0, t_edge_pp = 15.0, t_bet_amount = 100.0,
       t_kelly_fraction = 0.25, t_source = ''Test Source'', t_rationale = ''Test rationale'',
       t_confidence = ''HIGH'', t_arb_detail = None \<rparr>"

text \<open>The position and the state of the first test, and the state of the other two.\<close>

definition existing_pos :: position where
  "existing_pos =
     \<lparr> pos_trade_id = ''p1'', pos_market = ''Will test happen?'', pos_direction = BUY_YES,
       pos_entry_price = 40.0, pos_current_price = 40.0, pos_bet_amount = 100.0,
       pos_timestamp = ''2026-02-28T10:00:00Z'', pos_platform = ''Polymarket'',
       pos_url = ''https://example.com'' \<rparr>"

definition state_with_position :: bot_state where
  "state_with_position =
     \<lparr> bankroll = 9900.0, total_trades = 1, winning_trades = 0, total_pnl = 0,
       peak_bankroll = 10000.0, positions = [existing_pos],
       equity_curve = [(''2026-02-28T10:00:00Z'', 10000.0)] \<rparr>"

definition state_without_position :: bot_state where
  "state_without_position =
     \<lparr> bankroll = 10000.0, total_trades = 0, winning_trades = 0, total_pnl = 0,
       peak_bankroll = 10000.0, positions = [],
       equity_curve = [(''2026-02-28T10:00:00Z'', 10000.0)] \<rparr>"

text \<open>
  Strategy functions for the examples: the tests' \<open>lambda\<close> that returns a fixed list
  of proposals whatever it is called with, and one that raises, as the arbitrage
  strategy does on a bot whose \<open>params\<close> lack \<open>min_spread\<close>.
\<close>

definition fixed_strategy :: "trade list \<Rightarrow> strategy_fn" where
  "fixed_strategy proposals b all_markets poly_markets kalshi_markets bot_state = Inr proposals"

definition raising_strategy :: strategy_fn where
  "raising_strategy b all_markets poly_markets kalshi_markets bot_state = Inl (KeyError ''min_spread'')"

definition test_strategy_map :: "string \<rightharpoonup> strategy_fn" where
  "test_strategy_map =
     [''test_strategy'' \<mapsto> fixed_strategy [test_trade ''Will another test happen?''],
      ''cross_platform_arb'' \<mapsto> raising_strategy]"


text \<open>
  An environment for the examples: a fixed time, and in place of the MD5 digest, which
  is not computed here, the first twelve characters of the zero-padded input.
\<close>

definition test_env :: env where
  "test_env =
     \<lparr> now_isoformat = ''2026-02-28T12:00:00+00:00'', now_stamp = ''2026-02-28T12:00:00Z'',
       md5_hex12 = (\<lambda>s. take 12 (s @ ''000000000000'')) \<rparr>"

text \<open>The one-sided book of test_kalshi_parser.py: no bid, an ask of 55.\<close>

definition one_sided_book :: json_dict where
  "one_sided_book = [''yes_bid'' \<mapsto> JNum 0, ''yes_ask'' \<mapsto> JNum 55]"

section \<open>Predicates used in the statements\<close>

text \<open>
  A tidy string consists of the characters \<open>a-z\<close>, \<open>0-9\<close> and the blank, with no
  two blanks in a row.
\<close>

fun tidy :: "string \<Rightarrow> bool" where
  "tidy [] = True"
| "tidy (a # cs) =
     ((is_a_z_0_9 a \<or> (a = CHR '' '' \<and> (case cs of [] \<Rightarrow> True | b # _ \<Rightarrow> b \<noteq> CHR '' ''))) \<and> tidy cs)"

section \<open>Title normalization: when it is idempotent\<close>

lemma str_remove_absent: "\<not> sublist old t \<Longrightarrow> str_remove old t = t"
proof (induction old t rule: str_remove.induct)
  case (1 old)
  then show ?case by simp
next
  case (2 old c cs)
  from "2.prems" have np: "\<not> prefix old (c # cs)"
    using prefix_imp_sublist by blast
  from "2.prems" have "\<not> sublist old cs"
    by (meson sublist_Cons_right)
  with 2 np show ?case by simp
qed

lemma foldl_remove_absent:
  "\<forall>n \<in> set ns. \<not> sublist n t \<Longrightarrow> foldl (\<lambda>t noise. str_remove noise t) t ns = t"
  by (induction ns) (simp_all add: str_remove_absent)

lemma alnum_not_space: "is_a_z_0_9 c \<Longrightarrow> \<not> isspace c"
  by (auto simp: is_a_z_0_9_def isspace_def Let_def)

lemma blank_isspace: "isspace (CHR '' '')"
  by (simp add: isspace_def)

lemma lower_alnum: "is_a_z_0_9 c \<Longrightarrow> lower_char c = c"
  by (auto simp: is_a_z_0_9_def lower_char_def Let_def)

lemma lower_blank: "lower_char (CHR '' '') = CHR '' ''"
  by (simp add: lower_char_def)

lemma sub_spaces_head:
  "\<not> isspace c \<Longrightarrow> sub_spaces (c # cs) = c # sub_spaces cs"
  by simp

lemma tidy_sub_spaces:
  "\<forall>c \<in> set t. is_a_z_0_9 c \<or> isspace c \<Longrightarrow> tidy (sub_spaces t)"
proof (induction t rule: sub_spaces.induct)
  case 1
  then show ?case by simp
next
  case (2 c cs)
  show ?case
  proof (cases "isspace c")
    case True
    let ?r = "dropWhile isspace cs"
    have "\<forall>c \<in> set ?r. is_a_z_0_9 c \<or> isspace c"
      using "2.prems" set_dropWhileD by fastforce
    with 2 True have t: "tidy (sub_spaces ?r)" by simp
    have "case sub_spaces ?r of [] \<Rightarrow> True | b # _ \<Rightarrow> b \<noteq> CHR '' ''"
    proof (cases ?r)
      case Nil
      have "sub_spaces [] = []" by simp
      with Nil show ?thesis by (metis list.simps(4))
    next
      case (Cons d ds)
      then have "\<not> isspace d" using hd_dropWhile[of isspace cs] by auto
      with Cons show ?thesis using blank_isspace by auto
    qed
    with t True show ?thesis by simp
  next
    case False
    with "2.prems" have a: "is_a_z_0_9 c" by simp
    from 2 False have "tidy (sub_spaces cs)" by simp
    with a False show ?thesis by simp
  qed
qed

lemma tidy_append_left: "tidy (xs @ ys) \<Longrightarrow> tidy xs"
proof (induction xs)
  case Nil
  then show ?case by simp
next
  case (Cons a xs)
  then show ?case by (cases xs) auto
qed

lemma tidy_append_right: "tidy (xs @ ys) \<Longrightarrow> tidy ys"
  by (induction xs) auto

lemma strip_decomp:
  "t = takeWhile isspace t @ py_strip t @ rev (takeWhile isspace (rev (dropWhile isspace t)))"
proof -
  let ?v = "dropWhile isspace t"
  have "rev ?v = takeWhile isspace (rev ?v) @ dropWhile isspace (rev ?v)" by simp
  then have "?v = rev (dropWhile isspace (rev ?v)) @ rev (takeWhile isspace (rev ?v))"
    by (metis rev_append rev_rev_ident)
  then have "?v = py_strip t @ rev (takeWhile isspace (rev ?v))"
    by (simp add: py_strip_def)
  moreover have "t = takeWhile isspace t @ ?v" by simp
  ultimately show ?thesis by metis
qed

lemma tidy_strip: "tidy t \<Longrightarrow> tidy (py_strip t)"
  using strip_decomp[of t] tidy_append_left tidy_append_right by metis

lemma sublist_strip: "sublist n (py_strip t) \<Longrightarrow> sublist n t"
proof -
  assume a: "sublist n (py_strip t)"
  have "sublist (py_strip t) t"
    unfolding sublist_def using strip_decomp[of t] by blast
  with a show ?thesis using sublist_order.order_trans by blast
qed

lemma strip_fix:
  "t = [] \<or> (\<not> isspace (hd t) \<and> \<not> isspace (last t)) \<Longrightarrow> py_strip t = t"
proof (cases t)
  case Nil
  then show ?thesis by (simp add: py_strip_def)
next
  case (Cons a as)
  assume "t = [] \<or> (\<not> isspace (hd t) \<and> \<not> isspace (last t))"
  with Cons have h: "\<not> isspace (hd t)" and l: "\<not> isspace (last t)" by auto
  from Cons h have 1: "dropWhile isspace t = t" by simp
  from Cons have "rev t \<noteq> []" by simp
  moreover from Cons l have "\<not> isspace (hd (rev t))" using hd_rev[of t] by simp
  ultimately have 2: "dropWhile isspace (rev t) = rev t"
    by (cases "rev t") auto
  show ?thesis by (simp add: py_strip_def 1 2)
qed

lemma strip_ends:
  "py_strip t = [] \<or> (\<not> isspace (hd (py_strip t)) \<and> \<not> isspace (last (py_strip t)))"
proof (cases "py_strip t = []")
  case True
  then show ?thesis by simp
next
  case False
  let ?v = "dropWhile isspace t"
  let ?w = "dropWhile isspace (rev ?v)"
  have u: "py_strip t = rev ?w" by (simp add: py_strip_def)
  with False have wne: "?w \<noteq> []" by simp
  then have "\<not> isspace (hd ?w)" using hd_dropWhile by blast
  then have l: "\<not> isspace (last (py_strip t))" using u wne by (simp add: last_rev)
  have "?v = py_strip t @ rev (takeWhile isspace (rev ?v))"
    using strip_decomp[of t] by (metis takeWhile_dropWhile_id same_append_eq)
  with False have "hd ?v = hd (py_strip t)" and "?v \<noteq> []"
    by (metis hd_append2, metis append_is_Nil_conv)
  then have "\<not> isspace (hd (py_strip t))" using hd_dropWhile by metis
  with l show ?thesis by simp
qed

lemma tidy_lower: "tidy t \<Longrightarrow> py_lower t = t"
  unfolding py_lower_def
  by (induction t) (auto simp: lower_alnum lower_blank)

lemma tidy_sub_non_alnum: "tidy t \<Longrightarrow> sub_non_alnum t = t"
  unfolding sub_non_alnum_def
  by (induction t) (auto simp: blank_isspace)

lemma tidy_sub_spaces_fix: "tidy t \<Longrightarrow> sub_spaces t = t"
proof (induction t)
  case Nil
  then show ?case by simp
next
  case (Cons a cs)
  then have ih: "sub_spaces cs = cs" by simp
  show ?case
  proof (cases "is_a_z_0_9 a")
    case True
    then show ?thesis using ih alnum_not_space by simp
  next
    case False
    with Cons.prems have a: "a = CHR '' ''" by simp
    have "dropWhile isspace cs = cs"
    proof (cases cs)
      case Nil
      then show ?thesis by simp
    next
      case (Cons b bs)
      with Cons.prems a False have "b \<noteq> CHR '' ''" and "tidy (b # bs)" by auto
      then have "is_a_z_0_9 b" by simp
      then show ?thesis using Cons alnum_not_space by simp
    qed
    with a ih show ?thesis by (simp add: blank_isspace)
  qed
qed


lemma set_str_remove: "set (str_remove old t) \<subseteq> set t"
proof (induction old t rule: str_remove.induct)
  case (1 old)
  then show ?case by simp
next
  case (2 old c cs)
  show ?case
  proof (cases "old \<noteq> [] \<and> prefix old (c # cs)")
    case True
    with 2 have "set (str_remove old (c # cs)) \<subseteq> set (drop (length old) (c # cs))" by simp
    also have "\<dots> \<subseteq> set (c # cs)" by (rule set_drop_subset)
    finally show ?thesis .
  next
    case False
    with 2 show ?thesis by auto
  qed
qed

lemma set_foldl_remove: "set (foldl (\<lambda>t noise. str_remove noise t) t ns) \<subseteq> set t"
proof (induction ns arbitrary: t)
  case Nil
  then show ?case by simp
next
  case (Cons a ns)
  have "set (foldl (\<lambda>t noise. str_remove noise t) (str_remove a t) ns) \<subseteq> set (str_remove a t)"
    by (rule Cons.IH)
  with set_str_remove[of a t] show ?case by auto
qed

lemma set_strip: "set (py_strip t) \<subseteq> set t"
  using strip_decomp[of t] by (metis Un_upper1 Un_upper2 set_append subset_trans)

lemma tidy_plain: "tidy t \<Longrightarrow> c \<in> set t \<Longrightarrow> is_a_z_0_9 c \<or> c = CHR '' ''"
  by (induction t) auto

lemma plain_normalize_title:
  "c \<in> set (normalize_title t) \<Longrightarrow> is_a_z_0_9 c \<or> c = CHR '' ''"
proof -
  let ?c = "sub_spaces (sub_non_alnum (py_strip (py_lower t)))"
  assume "c \<in> set (normalize_title t)"
  then have "c \<in> set ?c"
    unfolding normalize_title_def using set_strip set_foldl_remove by blast
  moreover have "\<forall>c \<in> set (sub_non_alnum (py_strip (py_lower t))). is_a_z_0_9 c \<or> isspace c"
    by (simp add: sub_non_alnum_def)
  then have "tidy ?c" by (rule tidy_sub_spaces)
  ultimately show ?thesis by (rule tidy_plain[rotated])
qed

lemma tidy_no_double_blank:
  "\<forall>c \<in> set t. is_a_z_0_9 c \<or> c = CHR '' '' \<Longrightarrow> \<not> sublist ''  '' t \<Longrightarrow> tidy t"
proof (induction t)
  case Nil
  then show ?case by simp
next
  case (Cons a cs)
  from Cons.prems(2) have "\<not> sublist ''  '' cs" by (meson sublist_Cons_right)
  with Cons have t: "tidy cs" by simp
  from Cons.prems(2) have np: "\<not> prefix ''  '' (a # cs)"
    using prefix_imp_sublist by blast
  show ?case
  proof (cases cs)
    case Nil
    with Cons.prems(1) show ?thesis by simp
  next
    case (Cons b bs)
    with np have "\<not> (a = CHR '' '' \<and> b = CHR '' '')" by auto
    with Cons t Cons.prems(1) show ?thesis by auto
  qed
qed

lemma length_str_remove: "length (str_remove old t) \<le> length t"
proof (induction old t rule: str_remove.induct)
  case (1 old)
  then show ?case by simp
next
  case (2 old c cs)
  show ?case
  proof (cases "old \<noteq> [] \<and> prefix old (c # cs)")
    case True
    with 2 have "length (str_remove old (c # cs)) \<le> length (drop (length old) (c # cs))" by simp
    then show ?thesis by simp
  next
    case False
    with 2 show ?thesis by auto
  qed
qed

lemma str_remove_shorter:
  "old \<noteq> [] \<Longrightarrow> sublist old t \<Longrightarrow> length (str_remove old t) < length t"
proof (induction old t rule: str_remove.induct)
  case (1 old)
  then show ?case by simp
next
  case (2 old c cs)
  show ?case
  proof (cases "prefix old (c # cs)")
    case True
    have "length (str_remove old (drop (length old) (c # cs))) \<le> length (drop (length old) (c # cs))"
      by (rule length_str_remove)
    also have "\<dots> < length (c # cs)" using "2.prems"(1) by (cases old) auto
    finally show ?thesis using True "2.prems"(1) by simp
  next
    case False
    with "2.prems" have "sublist old cs" by (meson sublist_Cons_right)
    with 2 False have "length (str_remove old cs) < length cs" by simp
    with False show ?thesis by simp
  qed
qed

lemma length_foldl_remove:
  "length (foldl (\<lambda>t noise. str_remove noise t) t ns) \<le> length t"
proof (induction ns arbitrary: t)
  case Nil
  then show ?case by simp
next
  case (Cons a ns)
  have "length (foldl (\<lambda>t noise. str_remove noise t) (str_remove a t) ns) \<le> length (str_remove a t)"
    by (rule Cons.IH)
  with length_str_remove[of a t] show ?case by simp
qed

lemma str_remove_empty: "str_remove [] t = t"
  by (induction t) simp_all

lemma foldl_remove_shorter:
  "n \<in> set ns \<Longrightarrow> n \<noteq> [] \<Longrightarrow> sublist n t
     \<Longrightarrow> length (foldl (\<lambda>t noise. str_remove noise t) t ns) < length t"
proof (induction ns arbitrary: t)
  case Nil
  then show ?case by simp
next
  case (Cons a ns)
  show ?case
  proof (cases "a \<noteq> [] \<and> sublist a t")
    case True
    then have "length (str_remove a t) < length t" by (simp add: str_remove_shorter)
    with length_foldl_remove[of "str_remove a t" ns] show ?thesis by simp
  next
    case False
    then have same: "str_remove a t = t"
      by (cases "a = []") (simp_all add: str_remove_absent str_remove_empty)
    from False Cons.prems have "n \<in> set ns" by auto
    with Cons same show ?thesis by simp
  qed
qed

lemma length_strip: "length (py_strip t) \<le> length t"
  using strip_decomp[of t] by (metis length_append le_add1 le_add2 le_trans)

lemma length_sub_spaces: "length (sub_spaces t) \<le> length t"
proof (induction t rule: sub_spaces.induct)
  case 1
  then show ?case by simp
next
  case (2 c cs)
  show ?case
  proof (cases "isspace c")
    case True
    with 2 have "length (sub_spaces (dropWhile isspace cs)) \<le> length (dropWhile isspace cs)" by simp
    also have "\<dots> \<le> length cs" by (rule length_dropWhile_le)
    finally show ?thesis using True by simp
  next
    case False
    with 2 show ?thesis by simp
  qed
qed

lemma sub_spaces_shorter:
  "sublist ''  '' t \<Longrightarrow> length (sub_spaces t) < length t"
proof (induction t rule: sub_spaces.induct)
  case 1
  then show ?case by simp
next
  case (2 c cs)
  show ?case
  proof (cases "isspace c")
    case True
    show ?thesis
    proof (cases "cs \<noteq> [] \<and> isspace (hd cs)")
      case True
      then have "length (dropWhile isspace cs) < length cs"
        by (cases cs) (auto simp: le_imp_less_Suc length_dropWhile_le)
      with length_sub_spaces[of "dropWhile isspace cs"] \<open>isspace c\<close> show ?thesis by simp
    next
      case False
      then have dw: "dropWhile isspace cs = cs" by (cases cs) auto
      from False have "\<not> prefix ''  '' (c # cs)"
        using blank_isspace by (cases cs) auto
      with "2.prems" have "sublist ''  '' cs" by (meson sublist_Cons_right)
      with 2 True dw have "length (sub_spaces cs) < length cs" by simp
      with True dw show ?thesis by simp
    qed
  next
    case False
    then have "\<not> prefix ''  '' (c # cs)" using blank_isspace by auto
    with "2.prems" have "sublist ''  '' cs" by (meson sublist_Cons_right)
    with 2 False show ?thesis by simp
  qed
qed

lemma noise_words_nonempty: "n \<in> set noise_words \<Longrightarrow> n \<noteq> []"
  by (auto simp: noise_words_def)

lemma strip_normalize_title: "py_strip (normalize_title t) = normalize_title t"
  unfolding normalize_title_def using strip_ends by (rule strip_fix)

text \<open>The first three steps leave a normalized title as it is, up to the collapse of blanks.\<close>

lemma clean_normalized:
  "sub_spaces (sub_non_alnum (py_strip (py_lower (normalize_title t))))
     = sub_spaces (normalize_title t)"
proof -
  let ?u = "normalize_title t"
  have pl: "\<forall>c \<in> set ?u. is_a_z_0_9 c \<or> c = CHR '' ''"
    using plain_normalize_title by blast
  then have "py_lower ?u = ?u"
    unfolding py_lower_def by (intro map_idI) (auto simp: lower_alnum lower_blank)
  moreover from pl have "sub_non_alnum ?u = ?u"
    unfolding sub_non_alnum_def using blank_isspace by (auto simp: filter_id_conv)
  ultimately show ?thesis by (simp add: strip_normalize_title)
qed

text \<open>
  C6, as the code has it. Normalizing twice gives the same title as normalizing once
  exactly when the normalized title contains neither two blanks in a row nor one of
  the noise phrases. Deleting a noise phrase can leave either behind (the deletion of
  \<open>in 2026\<close> between two words leaves two blanks), and the second pass then changes
  the title again, so normalization is not idempotent on every string.
\<close>

theorem normalize_title_idempotent_iff:
  "normalize_title (normalize_title t) = normalize_title t
     \<longleftrightarrow> \<not> sublist ''  '' (normalize_title t)
          \<and> (\<forall>n \<in> set noise_words. \<not> sublist n (normalize_title t))"
proof
  let ?u = "normalize_title t"
  assume fixed: "normalize_title ?u = ?u"
  have nu: "normalize_title ?u = py_strip (foldl (\<lambda>t noise. str_remove noise t) (sub_spaces ?u) noise_words)"
    by (simp add: normalize_title_def[of ?u] clean_normalized)
  have le: "length (normalize_title ?u) \<le> length (foldl (\<lambda>t noise. str_remove noise t) (sub_spaces ?u) noise_words)"
    unfolding nu by (rule length_strip)
  have a: "\<not> sublist ''  '' ?u"
  proof
    assume "sublist ''  '' ?u"
    then have "length (sub_spaces ?u) < length ?u" by (rule sub_spaces_shorter)
    with le length_foldl_remove[of "sub_spaces ?u" noise_words]
    have "length (normalize_title ?u) < length ?u" by simp
    with fixed show False by simp
  qed
  have pl: "\<forall>c \<in> set ?u. is_a_z_0_9 c \<or> c = CHR '' ''"
    using plain_normalize_title by blast
  with a have "tidy ?u" by (simp add: tidy_no_double_blank)
  then have su: "sub_spaces ?u = ?u" by (rule tidy_sub_spaces_fix)
  have b: "\<forall>n \<in> set noise_words. \<not> sublist n ?u"
  proof
    fix n assume n: "n \<in> set noise_words"
    show "\<not> sublist n ?u"
    proof
      assume "sublist n ?u"
      with n noise_words_nonempty[OF n]
      have "length (foldl (\<lambda>t noise. str_remove noise t) ?u noise_words) < length ?u"
        by (simp add: foldl_remove_shorter)
      with le su have "length (normalize_title ?u) < length ?u" by simp
      with fixed show False by simp
    qed
  qed
  from a b show "\<not> sublist ''  '' ?u \<and> (\<forall>n \<in> set noise_words. \<not> sublist n ?u)" ..
next
  let ?u = "normalize_title t"
  assume h: "\<not> sublist ''  '' ?u \<and> (\<forall>n \<in> set noise_words. \<not> sublist n ?u)"
  have pl: "\<forall>c \<in> set ?u. is_a_z_0_9 c \<or> c = CHR '' ''"
    using plain_normalize_title by blast
  with h have "tidy ?u" by (simp add: tidy_no_double_blank)
  then have su: "sub_spaces ?u = ?u" by (rule tidy_sub_spaces_fix)
  have "normalize_title ?u = py_strip (foldl (\<lambda>t noise. str_remove noise t) (sub_spaces ?u) noise_words)"
    by (simp add: normalize_title_def[of ?u] clean_normalized)
  also have "\<dots> = py_strip ?u" using h by (simp add: su foldl_remove_absent)
  also have "\<dots> = ?u" by (rule strip_normalize_title)
  finally show "normalize_title ?u = ?u" .
qed

theorem normalize_title_idempotent_iff_witness:
  "normalize_title (normalize_title ''Will the Fed cut rates?'') = normalize_title ''Will the Fed cut rates?''
   \<and> \<not> sublist ''  '' (normalize_title ''Will the Fed cut rates?'')
   \<and> list_all (\<lambda>n. \<not> sublist n (normalize_title ''Will the Fed cut rates?'')) noise_words"
proof -
  have h: "\<not> sublist ''  '' (normalize_title ''Will the Fed cut rates?'')
     \<and> list_all (\<lambda>n. \<not> sublist n (normalize_title ''Will the Fed cut rates?'')) noise_words"
    by code_simp
  with normalize_title_idempotent_iff[of "''Will the Fed cut rates?''"] show ?thesis
    by (simp add: list_all_iff)
qed

text \<open>
  C6, as the specification states it, fails: the title below normalizes to
  \<open>trump win  election\<close> with two blanks, and that to \<open>trump win election\<close>.
\<close>

theorem normalize_title_not_idempotent:
  "normalize_title (normalize_title ''Will Trump win in 2026 election?'')
     \<noteq> normalize_title ''Will Trump win in 2026 election?''"
  by code_simp

section \<open>Kalshi ingestion of a one-sided book\<close>

text \<open>
  C1. A Kalshi market with no bid (0 or absent) and an ask of 55 should resolve to the
  price 55 and be kept. The extractor of scanner.py does so, and its fetcher keeps the
  market at 55. The fetcher of bots.py computes 0 for the same market, since it takes a
  midpoint only when bid and ask are both non-zero, and drops it.
\<close>

theorem one_sided_book_scanner_keeps_bots_drop:
  "extract_kalshi_yes_pct one_sided_book = Some 55
   \<and> map sr_yes_price (scanner_fetch_kalshi_markets (\<lambda>url. Page [one_sided_book] [])) = [55]
   \<and> bots_kalshi_row one_sided_book = None
   \<and> bots_fetch_kalshi_markets (\<lambda>url. Page [one_sided_book] []) = []
   \<and> extract_kalshi_yes_pct [''yes_ask'' \<mapsto> JNum 55] = Some 55
   \<and> bots_kalshi_row [''yes_ask'' \<mapsto> JNum 55] = None"
  by (simp add: one_sided_book_def extract_kalshi_yes_pct_def normalize_to_cents_def
      safe_float_def safe_float_none_def py_float_def positive_def
      scanner_fetch_kalshi_markets_def bots_fetch_kalshi_markets_def numeral_3_eq_3
      List.map_filter_simps scanner_kalshi_row_def bots_kalshi_row_def
      py_round_def round_half_even_def)

section \<open>Trade admission\<close>

text \<open>
  C2. No two open positions of a bot should share a normalized market key after
  admission. The keys of \<open>existing_market_keys\<close> are collected once, before the loop,
  and a trade admitted in the loop does not add its key: two proposals for the same
  market, here from the two venues, are both admitted by a bot with no position.
\<close>

theorem same_key_admitted_twice:
  "map (\<lambda>pos. normalize_title (pos_market pos))
     (positions (fst (admit_trades e tiago (existing_market_keys state_without_position)
        [test_trade ''Will test happen?'', (test_trade ''Will test happen?'')\<lparr> t_platform := ''Kalshi'' \<rparr>]
        (state_without_position, []))))
   = [''test happen'', ''test happen'']"
  by code_simp

text \<open>
  C3. A bot with no position, a cap of 5 and five admissible proposals should admit
  all five. At the cap test the position list already holds the trades admitted in this
  run, and \<open>executed_trades\<close> counts them again: the loop stops when the existing
  positions plus twice the admitted trades reach the cap, here after three trades.
\<close>

theorem cap_five_admits_three:
  "length (snd (admit_trades e tiago (existing_market_keys state_without_position)
      [test_trade ''A'', test_trade ''B'', test_trade ''C'', test_trade ''D'', test_trade ''E'']
      (state_without_position, []))) = 3
   \<and> map pos_market (positions (fst (admit_trades e tiago (existing_market_keys state_without_position)
      [test_trade ''A'', test_trade ''B'', test_trade ''C'', test_trade ''D'', test_trade ''E'']
      (state_without_position, [])))) = [''A'', ''B'', ''C'']
   \<and> max_positions_of tiago = 5"
  by code_simp

text \<open>
  How many trades the loop admits when no proposal is skipped for its key: with
  \<open>d\<close> the cap minus the positions held and the trades already executed, half of
  \<open>d\<close>, rounded up, and no more than are proposed.
\<close>

lemma admit_trades_count:
  "\<forall>trade \<in> set proposed. normalize_title (t_market trade) \<notin> existing
   \<Longrightarrow> length (snd (admit_trades e b existing proposed (st, ex)))
       = length ex + min (length proposed)
           (nat ((max_positions_of b - int (length (positions st)) - int (length ex) + 1) div 2))"
proof (induction proposed arbitrary: st ex)
  case Nil
  then show ?case by simp
next
  case (Cons trade proposed)
  then have fresh: "normalize_title (t_market trade) \<notin> existing"
    and rest: "\<forall>trade \<in> set proposed. normalize_title (t_market trade) \<notin> existing" by simp_all
  show ?case
  proof (cases "int (length (positions st) + length ex) \<ge> max_positions_of b")
    case True
    then have "nat ((max_positions_of b - int (length (positions st)) - int (length ex) + 1) div 2) = 0"
      by simp
    with fresh True show ?thesis by simp
  next
    case False
    let ?rec = "make_trade_record e b trade"
    let ?st = "st\<lparr> bankroll := bankroll st - t_bet_amount trade,
                    total_trades := total_trades st + 1,
                    positions := positions st @ [make_position ?rec trade] \<rparr>"
    have ih: "length (snd (admit_trades e b existing proposed (?st, ex @ [?rec])))
       = length (ex @ [?rec]) + min (length proposed)
           (nat ((max_positions_of b - int (length (positions ?st)) - int (length (ex @ [?rec])) + 1) div 2))"
      using rest by (rule Cons.IH)
    define d where "d = max_positions_of b - int (length (positions st)) - int (length ex)"
    from False have dpos: "0 < d" by (simp add: d_def)
    have a: "max_positions_of b - int (length (positions ?st)) - int (length (ex @ [?rec])) + 1 = d - 1"
      by (simp add: d_def)
    from dpos have b: "nat ((d + 1) div 2) = Suc (nat ((d - 1) div 2))" by simp
    from fresh False have "length (snd (admit_trades e b existing (trade # proposed) (st, ex)))
        = length (snd (admit_trades e b existing proposed (?st, ex @ [?rec])))"
      by (simp add: Let_def)
    also have "\<dots> = length ex + 1 + min (length proposed) (nat ((d - 1) div 2))"
      unfolding ih a by simp
    also have "\<dots> = length ex + min (length (trade # proposed)) (nat ((d + 1) div 2))"
      unfolding b by simp
    finally show ?thesis unfolding d_def .
  qed
qed

lemma admit_trades_cap_aux:
  "int (length (positions st)) \<le> max_positions_of b
   \<Longrightarrow> int (length (positions (fst (admit_trades e b existing proposed (st, ex))))) \<le> max_positions_of b"
proof (induction proposed arbitrary: st ex)
  case Nil
  then show ?case by simp
next
  case (Cons trade proposed)
  show ?case
  proof (cases "normalize_title (t_market trade) \<in> existing")
    case True
    with Cons show ?thesis by simp
  next
    case False
    show ?thesis
    proof (cases "int (length (positions st) + length ex) \<ge> max_positions_of b")
      case True
      with False Cons.prems show ?thesis by simp
    next
      case nb: False
      let ?st = "st\<lparr> bankroll := bankroll st - t_bet_amount trade,
                      total_trades := total_trades st + 1,
                      positions := positions st @ [make_position (make_trade_record e b trade) trade] \<rparr>"
      from nb have "int (length (positions ?st)) \<le> max_positions_of b" by simp
      then have "int (length (positions (fst (admit_trades e b existing proposed
                     (?st, ex @ [make_trade_record e b trade]))))) \<le> max_positions_of b"
        by (rule Cons.IH)
      with False nb show ?thesis by (simp add: Let_def)
    qed
  qed
qed

lemma process_bot_positions:
  "positions (fst (process_bot e b ms outcome st))
     = map (mark_position ms)
         (positions (fst (admit_trades e b (existing_market_keys st)
            (case outcome of Inl exn \<Rightarrow> [] | Inr ts \<Rightarrow> ts) (st, []))))"
  by (simp add: process_bot_def Let_def split: prod.splits)

text \<open>
  C4. If a bot holds at most \<open>max_positions\<close> open positions before the admission
  loop, it holds at most \<open>max_positions\<close> after it, whatever is proposed; and so it
  does after the whole per-bot step, which only re-marks the positions.
\<close>

theorem open_positions_within_cap:
  "int (length (positions st)) \<le> max_positions_of b \<longrightarrow>
     int (length (positions (fst (admit_trades e b (existing_market_keys st) proposed (st, [])))))
       \<le> max_positions_of b
   \<and> int (length (positions (fst (process_bot e b ms outcome st)))) \<le> max_positions_of b"
  by (simp add: admit_trades_cap_aux process_bot_positions)

theorem open_positions_within_cap_witness:
  "int (length (positions state_with_position)) \<le> max_positions_of (base_bot ''test_strategy'' 1)
   \<and> int (length (positions (fst (admit_trades test_env (base_bot ''test_strategy'' 1)
        (existing_market_keys state_with_position) [test_trade ''Will another test happen?'']
        (state_with_position, []))))) \<le> 1
   \<and> int (length (positions (fst (process_bot test_env (base_bot ''test_strategy'' 1) []
        (Inr [test_trade ''Will another test happen?'']) state_with_position)))) \<le> 1"
proof -
  have h: "int (length (positions state_with_position)) \<le> max_positions_of (base_bot ''test_strategy'' 1)"
    by (simp add: state_with_position_def max_positions_of_def base_bot_def)
  have m: "max_positions_of (base_bot ''test_strategy'' 1) = 1"
    by (simp add: max_positions_of_def base_bot_def)
  from h open_positions_within_cap[of state_with_position "base_bot ''test_strategy'' 1" test_env
      "[test_trade ''Will another test happen?'']" "[]" "Inr [test_trade ''Will another test happen?'']"]
  show ?thesis unfolding m by simp
qed

lemma admit_trades_effect:
  "admit_trades e b existing proposed (st, ex) = (st', ex')
   \<Longrightarrow> \<exists>new_pos new_rec.
         positions st' = positions st @ new_pos \<and> ex' = ex @ new_rec
       \<and> map pos_bet_amount new_pos = map r_bet_amount new_rec
       \<and> bankroll st' = bankroll st - sum_list (map r_bet_amount new_rec)
       \<and> total_trades st' = total_trades st + int (length new_rec)
       \<and> winning_trades st' = winning_trades st \<and> total_pnl st' = total_pnl st
       \<and> peak_bankroll st' = peak_bankroll st \<and> equity_curve st' = equity_curve st"
proof (induction proposed arbitrary: st ex)
  case Nil
  then show ?case by simp
next
  case (Cons trade proposed)
  show ?case
  proof (cases "normalize_title (t_market trade) \<in> existing")
    case True
    with Cons.prems have "admit_trades e b existing proposed (st, ex) = (st', ex')" by simp
    then show ?thesis by (rule Cons.IH)
  next
    case False
    show ?thesis
    proof (cases "int (length (positions st) + length ex) \<ge> max_positions_of b")
      case True
      with False Cons.prems have "st' = st" and "ex' = ex" by simp_all
      then show ?thesis by simp
    next
      case nb: False
      let ?rec = "make_trade_record e b trade"
      let ?st = "st\<lparr> bankroll := bankroll st - t_bet_amount trade,
                      total_trades := total_trades st + 1,
                      positions := positions st @ [make_position ?rec trade] \<rparr>"
      from False nb Cons.prems
      have "admit_trades e b existing proposed (?st, ex @ [?rec]) = (st', ex')"
        by (simp add: Let_def)
      from Cons.IH[OF this] obtain new_pos new_rec where
        h: "positions st' = positions ?st @ new_pos" "ex' = (ex @ [?rec]) @ new_rec"
           "map pos_bet_amount new_pos = map r_bet_amount new_rec"
           "bankroll st' = bankroll ?st - sum_list (map r_bet_amount new_rec)"
           "total_trades st' = total_trades ?st + int (length new_rec)"
           "winning_trades st' = winning_trades ?st" "total_pnl st' = total_pnl ?st"
           "peak_bankroll st' = peak_bankroll ?st" "equity_curve st' = equity_curve ?st"
        by blast
      have amt: "pos_bet_amount (make_position ?rec trade) = r_bet_amount ?rec"
        by (simp add: make_position_def make_trade_record_def)
      have ramt: "r_bet_amount ?rec = t_bet_amount trade"
        by (simp add: make_trade_record_def)
      show ?thesis
        apply (rule exI[where x = "make_position ?rec trade # new_pos"])
        apply (rule exI[where x = "?rec # new_rec"])
        using h amt ramt by simp
    qed
  qed
qed

text \<open>
  C10. The admission loop conserves the bankroll plus the stakes of the open
  positions: the positions held before are kept as they are, each admitted trade
  appends one position whose stake is the bet amount of its trade record, the bankroll
  falls by the sum of these amounts, and the other money fields are not touched. No
  test keeps the bankroll from going below zero: a bot with 50 in cash that is offered
  a stake of 100 ends at -50.
\<close>

theorem admission_conserves_cash_plus_stakes:
  "(case admit_trades e b existing proposed (st, []) of
      (st', executed_trades) \<Rightarrow>
        bankroll st' + sum_list (map pos_bet_amount (positions st'))
          = bankroll st + sum_list (map pos_bet_amount (positions st))
      \<and> take (length (positions st)) (positions st') = positions st
      \<and> map pos_bet_amount (drop (length (positions st)) (positions st'))
          = map r_bet_amount executed_trades
      \<and> bankroll st' = bankroll st - sum_list (map r_bet_amount executed_trades)
      \<and> total_pnl st' = total_pnl st \<and> peak_bankroll st' = peak_bankroll st)
   \<and> bankroll (fst (admit_trades e (base_bot ''test_strategy'' 2) {}
        [test_trade ''Will another test happen?'']
        (state_without_position\<lparr> bankroll := 50 \<rparr>, []))) = - 50"
proof -
  obtain st' ex' where r: "admit_trades e b existing proposed (st, []) = (st', ex')"
    by (cases "admit_trades e b existing proposed (st, [])") 
  from admit_trades_effect[OF r] obtain new_pos new_rec where
    h: "positions st' = positions st @ new_pos" "ex' = [] @ new_rec"
       "map pos_bet_amount new_pos = map r_bet_amount new_rec"
       "bankroll st' = bankroll st - sum_list (map r_bet_amount new_rec)"
       "total_pnl st' = total_pnl st" "peak_bankroll st' = peak_bankroll st"
    by blast
  have neg: "bankroll (fst (admit_trades e (base_bot ''test_strategy'' 2) {}
        [test_trade ''Will another test happen?'']
        (state_without_position\<lparr> bankroll := 50 \<rparr>, []))) = - 50"
    by (simp add: Let_def max_positions_of_def base_bot_def state_without_position_def test_trade_def)
  from h have "bankroll st' + sum_list (map pos_bet_amount (positions st'))
          = bankroll st + sum_list (map pos_bet_amount (positions st))" by simp
  with h r neg show ?thesis by simp
qed

section \<open>Marking positions to market\<close>





section \<open>Kelly sizing\<close>

lemma round_half_even_upper: "real_of_int (round_half_even x) \<le> x + 1 / 2"
proof -
  have 1: "real_of_int \<lfloor>x\<rfloor> \<le> x" by simp
  have 2: "x < real_of_int \<lfloor>x\<rfloor> + 1" by linarith
  show ?thesis
  proof (cases "x - real_of_int \<lfloor>x\<rfloor> < 1 / 2")
    case True
    then have "round_half_even x = \<lfloor>x\<rfloor>" by (simp add: round_half_even_def Let_def)
    with 1 show ?thesis by linarith
  next
    case False
    then have "round_half_even x \<le> \<lfloor>x\<rfloor> + 1" by (simp add: round_half_even_def Let_def)
    then have "real_of_int (round_half_even x) \<le> real_of_int \<lfloor>x\<rfloor> + 1" by linarith
    with False show ?thesis by linarith
  qed
qed

lemma round_half_even_nonneg: "0 \<le> x \<Longrightarrow> 0 \<le> round_half_even x"
proof -
  assume "0 \<le> x"
  then have "0 \<le> \<lfloor>x\<rfloor>" by simp
  then show ?thesis unfolding round_half_even_def Let_def by auto
qed

lemma py_round2_upper: "py_round x 2 \<le> x + 0.005"
proof -
  have "real_of_int (round_half_even (x * 100)) \<le> x * 100 + 1 / 2"
    by (rule round_half_even_upper)
  then show ?thesis by (simp add: py_round_def field_simps)
qed

lemma py_round2_nonneg: "0 \<le> x \<Longrightarrow> 0 \<le> py_round x 2"
  using round_half_even_nonneg[of "x * 100"] by (simp add: py_round_def)

lemma kelly_yes_fraction:
  fixes m p :: real
  assumes "0 < m" "m < 1"
  shows "((1 / m - 1) * p - (1 - p)) / (1 / m - 1) = (p - m) / (1 - m)"
proof -
  have b: "1 / m - 1 = (1 - m) / m" using assms by (simp add: field_simps)
  have "((1 - m) / m * p - (1 - p)) = (p - m) / m" using assms by (simp add: field_simps)
  then show ?thesis unfolding b using assms by simp
qed

lemma kelly_no_fraction:
  fixes m p :: real
  assumes "0 < m" "m < 1"
  shows "((1 / (1 - m) - 1) * (1 - p) - (1 - (1 - p))) / (1 / (1 - m) - 1) = (m - p) / m"
proof -
  have "0 < 1 - m" and "1 - m < 1" using assms by simp_all
  from kelly_yes_fraction[OF this, of "1 - p"] show ?thesis by simp
qed

lemma kelly_size_unfold:
  assumes "\<not> (p \<le> 0.01 \<or> 0.99 \<le> p \<or> m \<le> 0.01 \<or> 0.99 \<le> m)"
  shows "kelly_size p m B k =
     (if m < p then
        (py_round (min (min (B * ((p - m) / (1 - m)) * k) (B * 0.15)) MAX_BET_PER_TRADE * (1 - FEES_PCT / 100)) 2,
         Some BUY_YES)
      else if p < m then
        (py_round (min (min (B * ((m - p) / m) * k) (B * 0.15)) MAX_BET_PER_TRADE * (1 - FEES_PCT / 100)) 2,
         Some BUY_NO)
      else (0, None))"
proof -
  from assms have m: "0 < m" "m < 1" by auto
  have sy: "0 < (p - m) / (1 - m) \<longleftrightarrow> m < p" using m by (simp add: zero_less_divide_iff)
  have sn: "0 < (m - p) / m \<longleftrightarrow> p < m" using m by (simp add: zero_less_divide_iff)
  have ge: "m < p \<Longrightarrow> (m - p) / m \<le> (p - m) / (1 - m)"
  proof -
    assume "m < p"
    then have "(m - p) / m \<le> 0" and "0 \<le> (p - m) / (1 - m)" using m
      by (simp_all add: divide_nonpos_pos)
    then show ?thesis by linarith
  qed
  show ?thesis
    unfolding kelly_size_def Let_def kelly_yes_fraction[OF m] kelly_no_fraction[OF m]
    using assms sy sn ge by auto
qed

lemma stake_bounds:
  assumes "0 \<le> B" "0 \<le> f" "0 < k"
  shows "0 \<le> py_round (min (min (B * f * k) (B * 0.15)) MAX_BET_PER_TRADE * (1 - FEES_PCT / 100)) 2"
    and "py_round (min (min (B * f * k) (B * 0.15)) MAX_BET_PER_TRADE * (1 - FEES_PCT / 100)) 2
           \<le> min (0.15 * B) MAX_BET_PER_TRADE * 0.99 + 0.005"
proof -
  let ?bet = "min (min (B * f * k) (B * 0.15)) MAX_BET_PER_TRADE"
  have fee: "1 - FEES_PCT / 100 = 0.99" by (simp add: FEES_PCT_def)
  have "0 \<le> B * f * k" using assms by simp
  then have nn: "0 \<le> ?bet" using assms by (simp add: MAX_BET_PER_TRADE_def)
  then show "0 \<le> py_round (?bet * (1 - FEES_PCT / 100)) 2"
    unfolding fee by (intro py_round2_nonneg) simp
  have "?bet \<le> min (0.15 * B) MAX_BET_PER_TRADE" by (simp add: min_def)
  then have "?bet * 0.99 \<le> min (0.15 * B) MAX_BET_PER_TRADE * 0.99" by simp
  with py_round2_upper[of "?bet * 0.99"]
  show "py_round (?bet * (1 - FEES_PCT / 100)) 2 \<le> min (0.15 * B) MAX_BET_PER_TRADE * 0.99 + 0.005"
    unfolding fee by linarith
qed

lemma kelly_size_in_range:
  assumes "0.01 < p" "p < 0.99" "0.01 < m" "m < 0.99" "0 \<le> B" "0 < k"
  shows "0 \<le> fst (kelly_size p m B k)"
    and "fst (kelly_size p m B k) \<le> min (0.15 * B) MAX_BET_PER_TRADE * 0.99 + 0.005"
proof -
  from assms have g: "\<not> (p \<le> 0.01 \<or> 0.99 \<le> p \<or> m \<le> 0.01 \<or> 0.99 \<le> m)" by auto
  from assms have m: "0 < m" "m < 1" by auto
  have cap: "0 \<le> min (0.15 * B) MAX_BET_PER_TRADE * 0.99 + 0.005"
    using assms by (simp add: MAX_BET_PER_TRADE_def)
  consider (yes) "m < p" | (no) "p < m" | (eq) "p = m" by linarith
  then have "0 \<le> fst (kelly_size p m B k)
      \<and> fst (kelly_size p m B k) \<le> min (0.15 * B) MAX_BET_PER_TRADE * 0.99 + 0.005"
  proof cases
    case yes
    then have f: "0 \<le> (p - m) / (1 - m)" using m by simp
    from yes have "kelly_size p m B k =
        (py_round (min (min (B * ((p - m) / (1 - m)) * k) (B * 0.15)) MAX_BET_PER_TRADE * (1 - FEES_PCT / 100)) 2,
         Some BUY_YES)"
      by (simp only: kelly_size_unfold[OF g] if_True)
    with stake_bounds[OF assms(5) f assms(6)] show ?thesis by (simp only: fst_conv)
  next
    case no
    then have f: "0 \<le> (m - p) / m" using m by simp
    from no have "\<not> m < p" by simp
    with no have "kelly_size p m B k =
        (py_round (min (min (B * ((m - p) / m) * k) (B * 0.15)) MAX_BET_PER_TRADE * (1 - FEES_PCT / 100)) 2,
         Some BUY_NO)"
      by (simp only: kelly_size_unfold[OF g] if_True if_False)
    with stake_bounds[OF assms(5) f assms(6)] show ?thesis by (simp only: fst_conv)
  next
    case eq
    then have nl: "\<not> m < p" "\<not> p < m" by simp_all
    have "kelly_size p m B k = (0, None)"
      by (simp only: kelly_size_unfold[OF g] nl if_False)
    with cap show ?thesis by (simp only: fst_conv order_refl simp_thms)
  qed
  then show "0 \<le> fst (kelly_size p m B k)"
    and "fst (kelly_size p m B k) \<le> min (0.15 * B) MAX_BET_PER_TRADE * 0.99 + 0.005"
    by blast+
qed

lemma kelly_size_guard:
  "p \<le> 0.01 \<or> 0.99 \<le> p \<or> m \<le> 0.01 \<or> 0.99 \<le> m \<Longrightarrow> kelly_size p m B k = (0, None)"
  unfolding kelly_size_def by (rule if_P)

lemma kelly_size_branches:
  fixes p m B k :: real
  defines "f_yes \<equiv> ((1 / m - 1) * p - (1 - p)) / (1 / m - 1)"
    and "f_no \<equiv> ((1 / (1 - m) - 1) * (1 - p) - (1 - (1 - p))) / (1 / (1 - m) - 1)"
  assumes g: "\<not> (p \<le> 0.01 \<or> 0.99 \<le> p \<or> m \<le> 0.01 \<or> 0.99 \<le> m)"
  shows "kelly_size p m B k =
     (if 0 < f_yes \<and> f_no \<le> f_yes then
        (py_round (min (min (B * f_yes * k) (B * 0.15)) MAX_BET_PER_TRADE * (1 - FEES_PCT / 100)) 2,
         Some BUY_YES)
      else if 0 < f_no then
        (py_round (min (min (B * f_no * k) (B * 0.15)) MAX_BET_PER_TRADE * (1 - FEES_PCT / 100)) 2,
         Some BUY_NO)
      else (0, None))"
  unfolding kelly_size_def Let_def f_yes_def f_no_def using g by (simp only: if_False)

lemma kelly_size_never_arb: "snd (kelly_size p m B k) \<noteq> Some ARB"
proof (cases "p \<le> 0.01 \<or> 0.99 \<le> p \<or> m \<le> 0.01 \<or> 0.99 \<le> m")
  case True
  then show ?thesis by (simp only: kelly_size_guard snd_conv) simp
next
  case False
  show ?thesis unfolding kelly_size_branches[OF False] by (simp split: if_splits)
qed

text \<open>
  C5, as the code has it. Within 0.01 of 0 or 1, for either probability, the result is
  no trade with stake 0. The direction is never ARB. For probabilities strictly inside,
  a bankroll that is not negative and a Kelly fraction in (0, 1], the stake is not
  negative and is at most 0.99 times the cap \<open>min(0.15 * bankroll, 800)\<close> plus half a
  cent, the fee being taken off before the stake is rounded to cents; so it is at most
  the cap when the bankroll is at least 10/3, that is when the cap is at least 0.50.
  The YES side is taken when its fraction is positive and not below the NO side's, the
  NO side when that fails and its fraction is positive, and there is no trade when
  neither fraction is positive.
\<close>

theorem kelly_size_stake_and_direction:
  "(p \<le> 0.01 \<or> 0.99 \<le> p \<or> m \<le> 0.01 \<or> 0.99 \<le> m \<longrightarrow> kelly_size p m B k = (0, None))
   \<and> snd (kelly_size p m B k) \<noteq> Some ARB
   \<and> (0.01 < p \<and> p < 0.99 \<and> 0.01 < m \<and> m < 0.99 \<and> 0 \<le> B \<and> 0 < k \<and> k \<le> 1 \<longrightarrow>
         0 \<le> fst (kelly_size p m B k)
       \<and> fst (kelly_size p m B k) \<le> min (0.15 * B) MAX_BET_PER_TRADE * 0.99 + 0.005
       \<and> (10 / 3 \<le> B \<longrightarrow> fst (kelly_size p m B k) \<le> min (0.15 * B) MAX_BET_PER_TRADE)
       \<and> (let f_yes = ((1 / m - 1) * p - (1 - p)) / (1 / m - 1);
               f_no = ((1 / (1 - m) - 1) * (1 - p) - (1 - (1 - p))) / (1 / (1 - m) - 1)
          in (0 < f_yes \<and> f_no \<le> f_yes \<longrightarrow> snd (kelly_size p m B k) = Some BUY_YES)
           \<and> (\<not> (0 < f_yes \<and> f_no \<le> f_yes) \<and> 0 < f_no \<longrightarrow> snd (kelly_size p m B k) = Some BUY_NO)
           \<and> (f_yes \<le> 0 \<and> f_no \<le> 0 \<longrightarrow> kelly_size p m B k = (0, None))))"
proof (intro conjI impI)
  assume "p \<le> 0.01 \<or> 0.99 \<le> p \<or> m \<le> 0.01 \<or> 0.99 \<le> m"
  then show "kelly_size p m B k = (0, None)" by (rule kelly_size_guard)
next
  show "snd (kelly_size p m B k) \<noteq> Some ARB" by (rule kelly_size_never_arb)
next
  assume a: "0.01 < p \<and> p < 0.99 \<and> 0.01 < m \<and> m < 0.99 \<and> 0 \<le> B \<and> 0 < k \<and> k \<le> 1"
  then show "0 \<le> fst (kelly_size p m B k)" by (intro kelly_size_in_range(1)) simp_all
next
  assume a: "0.01 < p \<and> p < 0.99 \<and> 0.01 < m \<and> m < 0.99 \<and> 0 \<le> B \<and> 0 < k \<and> k \<le> 1"
  then show "fst (kelly_size p m B k) \<le> min (0.15 * B) MAX_BET_PER_TRADE * 0.99 + 0.005"
    by (intro kelly_size_in_range(2)) simp_all
next
  assume a: "0.01 < p \<and> p < 0.99 \<and> 0.01 < m \<and> m < 0.99 \<and> 0 \<le> B \<and> 0 < k \<and> k \<le> 1"
    and b: "10 / 3 \<le> B"
  from a have up: "fst (kelly_size p m B k) \<le> min (0.15 * B) MAX_BET_PER_TRADE * 0.99 + 0.005"
    by (intro kelly_size_in_range(2)) simp_all
  define c where "c = min (0.15 * B) MAX_BET_PER_TRADE"
  from b have "1 / 2 \<le> c" by (simp add: c_def MAX_BET_PER_TRADE_def)
  then have "c * (99 / 100) + 5 / 1000 \<le> c" by linarith
  then have "c * 0.99 + 0.005 \<le> c" by simp
  with up show "fst (kelly_size p m B k) \<le> min (0.15 * B) MAX_BET_PER_TRADE"
    unfolding c_def by (rule order_trans)
next
  assume a: "0.01 < p \<and> p < 0.99 \<and> 0.01 < m \<and> m < 0.99 \<and> 0 \<le> B \<and> 0 < k \<and> k \<le> 1"
  then have g: "\<not> (p \<le> 0.01 \<or> 0.99 \<le> p \<or> m \<le> 0.01 \<or> 0.99 \<le> m)" by auto
  define f_yes where "f_yes = ((1 / m - 1) * p - (1 - p)) / (1 / m - 1)"
  define f_no where "f_no = ((1 / (1 - m) - 1) * (1 - p) - (1 - (1 - p))) / (1 / (1 - m) - 1)"
  note ks = kelly_size_branches[OF g, of B k, folded f_yes_def f_no_def]
  have "(0 < f_yes \<and> f_no \<le> f_yes \<longrightarrow> snd (kelly_size p m B k) = Some BUY_YES)
      \<and> (\<not> (0 < f_yes \<and> f_no \<le> f_yes) \<and> 0 < f_no \<longrightarrow> snd (kelly_size p m B k) = Some BUY_NO)
      \<and> (f_yes \<le> 0 \<and> f_no \<le> 0 \<longrightarrow> kelly_size p m B k = (0, None))"
    unfolding ks by auto
  then show "let f_yes = ((1 / m - 1) * p - (1 - p)) / (1 / m - 1);
            f_no = ((1 / (1 - m) - 1) * (1 - p) - (1 - (1 - p))) / (1 / (1 - m) - 1)
        in (0 < f_yes \<and> f_no \<le> f_yes \<longrightarrow> snd (kelly_size p m B k) = Some BUY_YES)
         \<and> (\<not> (0 < f_yes \<and> f_no \<le> f_yes) \<and> 0 < f_no \<longrightarrow> snd (kelly_size p m B k) = Some BUY_NO)
         \<and> (f_yes \<le> 0 \<and> f_no \<le> 0 \<longrightarrow> kelly_size p m B k = (0, None))"
    unfolding Let_def f_yes_def f_no_def .
qed

theorem kelly_size_stake_and_direction_witness:
  "kelly_size 0.005 0.4 10000 0.25 = (0, None)
   \<and> 0 \<le> fst (kelly_size 0.55 0.4 10000 0.25)
   \<and> fst (kelly_size 0.55 0.4 10000 0.25) \<le> 800
   \<and> snd (kelly_size 0.55 0.4 10000 0.25) = Some BUY_YES
   \<and> snd (kelly_size 0.3 0.4 10000 0.25) = Some BUY_NO
   \<and> kelly_size 0.4 0.4 10000 0.25 = (0, None)"
proof -
  have 1: "kelly_size 0.005 0.4 10000 0.25 = (0, None)"
    using kelly_size_stake_and_direction[of "0.005" "0.4" 10000 "0.25"] by simp
  have 2: "0 \<le> fst (kelly_size 0.55 0.4 10000 0.25)
      \<and> fst (kelly_size 0.55 0.4 10000 0.25) \<le> 800
      \<and> snd (kelly_size 0.55 0.4 10000 0.25) = Some BUY_YES"
    using kelly_size_stake_and_direction[of "0.55" "0.4" 10000 "0.25"]
    by (simp add: MAX_BET_PER_TRADE_def Let_def)
  have 3: "snd (kelly_size 0.3 0.4 10000 0.25) = Some BUY_NO"
    using kelly_size_stake_and_direction[of "0.3" "0.4" 10000 "0.25"]
    by (simp add: Let_def)
  have 4: "kelly_size 0.4 0.4 10000 0.25 = (0, None)"
    using kelly_size_stake_and_direction[of "0.4" "0.4" 10000 "0.25"]
    by (simp add: Let_def)
  from 1 2 3 4 show ?thesis by simp
qed

text \<open>
  C5, as the specification states it, fails for a small bankroll: with 0.034 in cash
  the cap is 0.0051, the stake after the fee is 0.005049, and rounding to cents gives
  0.01, above the cap.
\<close>

theorem kelly_size_stake_above_cap:
  "(0.01::real) < 0.9 \<and> (0.9::real) < 0.99 \<and> (0.01::real) < 0.1 \<and> (0.1::real) < 0.99
   \<and> (0::real) \<le> 0.034 \<and> (0::real) < 1 \<and> (1::real) \<le> 1
   \<and> fst (kelly_size 0.9 0.1 0.034 1) = 0.01
   \<and> min (0.15 * 0.034) MAX_BET_PER_TRADE = 0.0051
   \<and> \<not> fst (kelly_size 0.9 0.1 0.034 1) \<le> min (0.15 * 0.034) MAX_BET_PER_TRADE"
  by (simp add: kelly_size_def Let_def MAX_BET_PER_TRADE_def FEES_PCT_def py_round_def round_half_even_def)

section \<open>A strategy that raises\<close>

lemma run_bots_append:
  "run_bots e S P K (xs @ ys) acc = run_bots e S P K ys (run_bots e S P K xs acc)"
proof (induction xs arbitrary: acc)
  case Nil
  then show ?case by simp
next
  case (Cons b xs)
  obtain state nt res where acc: "acc = (state, nt, res)" by (cases acc) auto
  show ?case unfolding acc
    by (simp add: Cons.IH Let_def split: option.splits prod.splits)
qed

text \<open>One bot changes the state of its own id only.\<close>

lemma run_bots_step_other:
  "i \<noteq> bot_id b \<Longrightarrow> fst (run_bots e S P K [b] (state, nt, res)) i = state i"
  by (simp add: Let_def split: option.splits prod.splits)

text \<open>What a run leaves at an id depends only on what it found there.\<close>

lemma run_bots_agree:
  "state1 i = state2 i
   \<Longrightarrow> fst (run_bots e S P K bs (state1, nt1, res1)) i
       = fst (run_bots e S P K bs (state2, nt2, res2)) i"
proof (induction bs arbitrary: state1 state2 nt1 nt2 res1 res2)
  case Nil
  then show ?case by simp
next
  case (Cons b bs)
  show ?case
  proof (cases "S (strategy b)")
    case None
    with Cons show ?thesis by simp
  next
    case (Some fn)
    let ?st1 = "case state1 (bot_id b) of None \<Rightarrow> fresh_state e | Some st \<Rightarrow> st"
    let ?st2 = "case state2 (bot_id b) of None \<Rightarrow> fresh_state e | Some st \<Rightarrow> st"
    obtain s1 x1 r1 where p1: "process_bot e b (P @ K) (fn b (P @ K) P K ?st1) ?st1 = (s1, x1, r1)"
      by (cases "process_bot e b (P @ K) (fn b (P @ K) P K ?st1) ?st1") auto
    obtain s2 x2 r2 where p2: "process_bot e b (P @ K) (fn b (P @ K) P K ?st2) ?st2 = (s2, x2, r2)"
      by (cases "process_bot e b (P @ K) (fn b (P @ K) P K ?st2) ?st2") auto
    have "(state1(bot_id b \<mapsto> s1)) i = (state2(bot_id b \<mapsto> s2)) i"
    proof (cases "i = bot_id b")
      case True
      with Cons.prems have "?st1 = ?st2" by simp
      with p1 p2 have "s1 = s2" by simp
      with True show ?thesis by simp
    next
      case False
      with Cons.prems show ?thesis by simp
    qed
    then have "fst (run_bots e S P K bs (state1(bot_id b \<mapsto> s1), nt1 @ x1, res1 @ [r1])) i
        = fst (run_bots e S P K bs (state2(bot_id b \<mapsto> s2), nt2 @ x2, res2 @ [r2])) i"
      by (rule Cons.IH)
    with Some p1 p2 show ?thesis by (simp add: Let_def)
  qed
qed

lemma run_bots_results_extend:
  "\<exists>more. snd (snd (run_bots e S P K bs (state, nt, res))) = res @ more"
proof (induction bs arbitrary: state nt res)
  case Nil
  then show ?case by simp
next
  case (Cons b bs)
  show ?case
  proof (cases "S (strategy b)")
    case None
    with Cons show ?thesis by simp
  next
    case (Some fn)
    let ?st = "case state (bot_id b) of None \<Rightarrow> fresh_state e | Some st \<Rightarrow> st"
    obtain s x r where p: "process_bot e b (P @ K) (fn b (P @ K) P K ?st) ?st = (s, x, r)"
      by (cases "process_bot e b (P @ K) (fn b (P @ K) P K ?st) ?st") auto
    from Cons.IH[of "state(bot_id b \<mapsto> s)" "nt @ x" "res @ [r]"]
    obtain more where "snd (snd (run_bots e S P K bs (state(bot_id b \<mapsto> s), nt @ x, res @ [r])))
        = (res @ [r]) @ more" by blast
    with Some p show ?thesis by (simp add: Let_def)
  qed
qed

lemma engine_saved_state:
  "saved_state (run_bot_engine e bl S P K state tr) = fst (run_bots e S P K bl (state, [], []))"
  by (simp add: run_bot_engine_def Let_def split: prod.splits)

lemma engine_bots:
  "bots (run_bot_engine e bl S P K state tr) = snd (snd (run_bots e S P K bl (state, [], [])))"
  by (simp add: run_bot_engine_def Let_def split: prod.splits)

text \<open>A failed strategy call: no trade, the old positions re-marked, the cash kept.\<close>

lemma process_bot_failure:
  "process_bot e b ms (Inl exn) st = (st', executed, result)
   \<Longrightarrow> executed = [] \<and> res_new_trades result = [] \<and> res_id result = bot_id b
     \<and> positions st' = map (mark_position ms) (positions st)
     \<and> bankroll st' = bankroll st \<and> total_trades st' = total_trades st"
  by (auto simp: process_bot_def Let_def)

text \<open>
  C9. Let the strategy of a bot raise when the engine calls it, in a run over the bots
  \<open>pre\<close>, the bot and \<open>post\<close>. Then the engine returns its result, in which the
  bot's entry follows those of \<open>pre\<close>, reports no new trade and holds the bot's old
  positions, re-marked. And the state saved for every other bot id is the state the
  run without the failing bot saves for it. An exception is a value of the strategy
  call here, so that the engine is a function returning its result is what its not
  raising means.
\<close>

theorem strategy_failure_is_contained:
  assumes "S (strategy b) = Some fn"
    and "fn b (P @ K) P K
           (case fst (run_bots e S P K pre (state, [], [])) (bot_id b) of
              None \<Rightarrow> fresh_state e | Some st \<Rightarrow> st) = Inl exn"
  shows "(\<exists>result rest.
            bots (run_bot_engine e (pre @ b # post) S P K state tr)
              = bots (run_bot_engine e pre S P K state tr) @ result # rest
          \<and> res_id result = bot_id b \<and> res_new_trades result = []
          \<and> res_positions result
              = map (mark_position (P @ K))
                  (positions (case saved_state (run_bot_engine e pre S P K state tr) (bot_id b) of
                                None \<Rightarrow> fresh_state e | Some st \<Rightarrow> st)))
       \<and> (\<forall>i. i \<noteq> bot_id b \<longrightarrow>
             saved_state (run_bot_engine e (pre @ b # post) S P K state tr) i
               = saved_state (run_bot_engine e (pre @ post) S P K state tr) i)"
proof -
  obtain s1 n1 r1 where pre: "run_bots e S P K pre (state, [], []) = (s1, n1, r1)"
    by (cases "run_bots e S P K pre (state, [], [])") auto
  let ?st = "case s1 (bot_id b) of None \<Rightarrow> fresh_state e | Some st \<Rightarrow> st"
  from assms(2) pre have fail: "fn b (P @ K) P K ?st = Inl exn" by simp
  obtain st' ex result where pb: "process_bot e b (P @ K) (Inl exn) ?st = (st', ex, result)"
    by (cases "process_bot e b (P @ K) (Inl exn) ?st") auto
  from process_bot_failure[OF pb]
  have f: "ex = []" "res_new_trades result = []" "res_id result = bot_id b"
    "positions st' = map (mark_position (P @ K)) (positions ?st)" by simp_all
  have rp: "res_positions result = positions st'"
    using pb by (auto simp: process_bot_def Let_def split: prod.splits)
  have step: "run_bots e S P K (b # post) (s1, n1, r1)
      = run_bots e S P K post (s1(bot_id b \<mapsto> st'), n1, r1 @ [result])"
    using assms(1) fail pb f(1) by (simp add: Let_def)
  have all: "run_bots e S P K (pre @ b # post) (state, [], [])
      = run_bots e S P K post (s1(bot_id b \<mapsto> st'), n1, r1 @ [result])"
    by (simp only: run_bots_append pre step)
  obtain more where more: "snd (snd (run_bots e S P K post (s1(bot_id b \<mapsto> st'), n1, r1 @ [result])))
      = (r1 @ [result]) @ more"
    using run_bots_results_extend by blast
  have part1: "\<exists>result rest.
            bots (run_bot_engine e (pre @ b # post) S P K state tr)
              = bots (run_bot_engine e pre S P K state tr) @ result # rest
          \<and> res_id result = bot_id b \<and> res_new_trades result = []
          \<and> res_positions result
              = map (mark_position (P @ K))
                  (positions (case saved_state (run_bot_engine e pre S P K state tr) (bot_id b) of
                                None \<Rightarrow> fresh_state e | Some st \<Rightarrow> st))"
    apply (rule exI[where x = result])
    apply (rule exI[where x = more])
    using f rp more by (simp add: engine_bots engine_saved_state all pre)
  have part2: "\<forall>i. i \<noteq> bot_id b \<longrightarrow>
             saved_state (run_bot_engine e (pre @ b # post) S P K state tr) i
               = saved_state (run_bot_engine e (pre @ post) S P K state tr) i"
  proof (intro allI impI)
    fix i assume i: "i \<noteq> bot_id b"
    then have "(s1(bot_id b \<mapsto> st')) i = s1 i" by simp
    then have "fst (run_bots e S P K post (s1(bot_id b \<mapsto> st'), n1, r1 @ [result])) i
        = fst (run_bots e S P K post (s1, n1, r1)) i"
      by (rule run_bots_agree)
    then show "saved_state (run_bot_engine e (pre @ b # post) S P K state tr) i
               = saved_state (run_bot_engine e (pre @ post) S P K state tr) i"
      by (simp add: engine_saved_state all run_bots_append[of e S P K pre post] pre)
  qed
  from part1 part2 show ?thesis by blast
qed

theorem strategy_failure_is_contained_witness:
  "test_strategy_map (strategy (base_bot ''cross_platform_arb'' 2)) = Some raising_strategy
   \<and> raising_strategy (base_bot ''cross_platform_arb'' 2) [] [] [] state_with_position
       = Inl (KeyError ''min_spread'')
   \<and> (\<exists>result rest.
         bots (run_bot_engine test_env
                 [base_bot ''cross_platform_arb'' 2, (base_bot ''test_strategy'' 2)\<lparr> bot_id := ''other'' \<rparr>]
                 test_strategy_map [] [] [''testbot'' \<mapsto> state_with_position] [])
           = result # rest
       \<and> res_id result = ''testbot'' \<and> res_new_trades result = []
       \<and> res_positions result = [existing_pos])
   \<and> saved_state (run_bot_engine test_env
          [base_bot ''cross_platform_arb'' 2, (base_bot ''test_strategy'' 2)\<lparr> bot_id := ''other'' \<rparr>]
          test_strategy_map [] [] [''testbot'' \<mapsto> state_with_position] []) ''other''
      = saved_state (run_bot_engine test_env
          [(base_bot ''test_strategy'' 2)\<lparr> bot_id := ''other'' \<rparr>]
          test_strategy_map [] [] [''testbot'' \<mapsto> state_with_position] []) ''other''"
proof -
  let ?b = "base_bot ''cross_platform_arb'' 2"
  let ?o = "(base_bot ''test_strategy'' 2)\<lparr> bot_id := ''other'' \<rparr>"
  let ?state = "[''testbot'' \<mapsto> state_with_position]"
  have id: "bot_id ?b = ''testbot''" by (simp add: base_bot_def)
  have h1: "test_strategy_map (strategy ?b) = Some raising_strategy"
    by (simp add: test_strategy_map_def base_bot_def)
  have st: "(case fst (run_bots test_env test_strategy_map [] [] [] (?state, [], [])) (bot_id ?b) of
              None \<Rightarrow> fresh_state test_env | Some st \<Rightarrow> st) = state_with_position"
    by (simp add: id)
  have h2: "raising_strategy ?b ([] @ []) [] []
           (case fst (run_bots test_env test_strategy_map [] [] [] (?state, [], [])) (bot_id ?b) of
              None \<Rightarrow> fresh_state test_env | Some st \<Rightarrow> st) = Inl (KeyError ''min_spread'')"
    by (simp add: raising_strategy_def)
  have empty: "bots (run_bot_engine test_env [] test_strategy_map [] [] ?state []) = []"
    "saved_state (run_bot_engine test_env [] test_strategy_map [] [] ?state []) (bot_id ?b)
       = Some state_with_position"
    by (simp_all add: run_bot_engine_def id)
  have mk: "map (mark_position ([] @ [])) (positions state_with_position) = [existing_pos]"
    by (simp add: state_with_position_def mark_position_def)
  have neq: "''other'' \<noteq> bot_id ?b" by (simp add: id)
  note th = strategy_failure_is_contained[OF h1 h2, of "[?o]" "[]"]
  from th obtain result rest where
    r: "bots (run_bot_engine test_env ([] @ ?b # [?o]) test_strategy_map [] [] ?state [])
          = bots (run_bot_engine test_env [] test_strategy_map [] [] ?state []) @ result # rest"
       "res_id result = bot_id ?b" "res_new_trades result = []"
       "res_positions result
          = map (mark_position ([] @ []))
              (positions (case saved_state (run_bot_engine test_env [] test_strategy_map [] [] ?state [])
                                (bot_id ?b) of
                            None \<Rightarrow> fresh_state test_env | Some st \<Rightarrow> st))"
    by blast
  from th neq have
    s: "saved_state (run_bot_engine test_env ([] @ ?b # [?o]) test_strategy_map [] [] ?state []) ''other''
          = saved_state (run_bot_engine test_env ([] @ [?o]) test_strategy_map [] [] ?state []) ''other''"
    by blast
  from r(1) have r1: "bots (run_bot_engine test_env [?b, ?o] test_strategy_map [] [] ?state [])
          = result # rest"
    by (simp only: empty(1) append_Nil)
  from r(4) have r4: "res_positions result = [existing_pos]"
    by (simp only: empty(2) option.case mk)
  from r(2) have r2: "res_id result = ''testbot''" by (simp only: id)
  have c3: "\<exists>result rest.
         bots (run_bot_engine test_env [?b, ?o] test_strategy_map [] [] ?state []) = result # rest
       \<and> res_id result = ''testbot'' \<and> res_new_trades result = []
       \<and> res_positions result = [existing_pos]"
    using r1 r2 r(3) r4 by blast
  have c2: "raising_strategy ?b [] [] [] state_with_position = Inl (KeyError ''min_spread'')"
    by (simp add: raising_strategy_def)
  from s have c4: "saved_state (run_bot_engine test_env [?b, ?o] test_strategy_map [] [] ?state []) ''other''
          = saved_state (run_bot_engine test_env [?o] test_strategy_map [] [] ?state []) ''other''"
    by (simp only: append_Nil)
  from h1 c2 c3 c4 show ?thesis by blast
qed

section \<open>The cycle record\<close>

text \<open>
  C7. The engine should return, for each bot, a cycle record with the decision TRADE or
  HOLD and the ranked hold reasons, as tests/test_issue2_cycles.py reads it from
  \<open>latest_cycle\<close> and \<open>recentCycles\<close>. The dicts the engine builds have neither
  key: no decision and no hold reason is recorded.
\<close>

theorem engine_result_has_no_cycle_record:
  "''latest_cycle'' \<notin> set (bot_result_keys base_bot_keys)
   \<and> ''recentCycles'' \<notin> set engine_result_keys"
  by (simp add: bot_result_keys_def base_bot_keys_def engine_result_keys_def)

end
